theory Spec2Isabelle
  imports Complex_Main "HOL-Library.AList"
begin

section \<open>Data model\<close>

text \<open>
  A table cell as the CSV reader leaves it: a number, a piece of text, or a missing
  value (NaN).  A number cell holds the real value of a finite double; arithmetic on
  doubles is not arithmetic on these reals and is written out where the program does
  it.  Where the reader types a column as text, every entry of it is text, the digits
  of a number too; a column that mixes numbers and text comes only from a file read in
  chunks, and the model admits it.  Strings are byte lists in UTF-8, so the micro sign
  is the two bytes 0xCE 0xBC.
\<close>

datatype cell = Num real | Text string | NA

type_synonym series = "cell list"

text \<open>
  A data frame is the ordered list of its named columns.  The CSV reader renames
  repeated headers, so the names of a frame it returns are distinct, and all columns
  have one length.
\<close>

type_synonym dataframe = "(string \<times> series) list"

definition columns :: "dataframe \<Rightarrow> string list" where
  "columns df = map fst df"

definition wf_table :: "dataframe \<Rightarrow> bool" where
  "wf_table df \<longleftrightarrow>
     distinct (columns df) \<and> (\<forall>p \<in> set df. \<forall>q \<in> set df. length (snd p) = length (snd q))"

datatype error = SystemExit string | TypeError | KeyError string

text \<open>\<^verbatim>\<open>df[c]\<close>: the column of that name, or KeyError.\<close>

definition getitem :: "dataframe \<Rightarrow> string \<Rightarrow> error + series" where
  "getitem df c = (case map_of df c of None \<Rightarrow> Inl (KeyError c) | Some s \<Rightarrow> Inr s)"

text \<open>\<^verbatim>\<open>df[keep]\<close> with a list of names: those columns, in the order of the list.\<close>

fun getitems :: "dataframe \<Rightarrow> string list \<Rightarrow> error + dataframe" where
  "getitems df [] = Inr []"
| "getitems df (c # cs) =
     (case getitem df c of
        Inl e \<Rightarrow> Inl e
      | Inr s \<Rightarrow> (case getitems df cs of Inl e \<Rightarrow> Inl e | Inr rest \<Rightarrow> Inr ((c, s) # rest)))"

text \<open>\<^verbatim>\<open>df[c] = s\<close>: an existing column is replaced in place, a new one is appended.\<close>

definition setitem :: "dataframe \<Rightarrow> string \<Rightarrow> series \<Rightarrow> dataframe" where
  "setitem df c s = AList.update c s df"

text \<open>Row selection by position, applied to every column alike.\<close>

definition take_rows :: "nat list \<Rightarrow> dataframe \<Rightarrow> dataframe" where
  "take_rows idx df = map (\<lambda>(c, s). (c, map ((!) s) idx)) df"

section \<open>Static tables (lines 9-22)\<close>

definition EEG_CHANNELS :: "string list" where
  "EEG_CHANNELS =
     [''Fz'', ''Cz'', ''P3'', ''C3'', ''F3'', ''F4'', ''C4'', ''P4'',
      ''Fp1'', ''Fp2'', ''T3'', ''T4'', ''T5'', ''T6'',
      ''O1'', ''O2'', ''F7'', ''F8'', ''A1'', ''A2'', ''Pz'']"

definition ECG_CHANNELS :: "(string \<times> string) list" where
  "ECG_CHANNELS = [(''X1:LEOG'', ''ECG_Left''), (''X2:REOG'', ''ECG_Right'')]"

definition IGNORE_EXACT :: "string list" where
  "IGNORE_EXACT =
     [''Trigger'', ''Time_Offset'', ''ADC_Status'', ''ADC_Sequence'', ''Event'', ''Comments'']"

definition IGNORE_PREFIXES :: "string list" where
  "IGNORE_PREFIXES = [''X3:'']"

definition startswith :: "string \<Rightarrow> string \<Rightarrow> bool" where
  "startswith c pfx \<longleftrightarrow> take (length pfx) c = pfx"

section \<open>Column filter and role split (lines 24-42)\<close>

definition ignored :: "string \<Rightarrow> bool" where
  "ignored c \<longleftrightarrow> c \<in> set IGNORE_EXACT \<or> list_ex (startswith c) IGNORE_PREFIXES"

definition kept_names :: "string list \<Rightarrow> string \<Rightarrow> string list" where
  "kept_names cols tcol = tcol # filter (\<lambda>c. c \<noteq> tcol \<and> \<not> ignored c) cols"

definition filter_columns :: "dataframe \<Rightarrow> string \<Rightarrow> error + dataframe" where
  "filter_columns df tcol = getitems df (kept_names (columns df) tcol)"

definition split_roles :: "string list \<Rightarrow> string list \<times> string list \<times> string list" where
  "split_roles cols =
     (filter (\<lambda>c. c \<in> set EEG_CHANNELS) cols,
      filter (\<lambda>c. map_of ECG_CHANNELS c \<noteq> None) cols,
      filter (\<lambda>c. c = ''CM'') cols)"

section \<open>Loading: coercion, row dropping, sorting (lines 55-61)\<close>

text \<open>
  \<^verbatim>\<open>pd.to_numeric(s, errors="coerce")\<close>: numbers stay, text is parsed by the
  library's number parser (a parameter of the model) and becomes NaN where that fails.
\<close>

definition to_numeric :: "(string \<Rightarrow> real option) \<Rightarrow> series \<Rightarrow> series" where
  "to_numeric parse s =
     map (\<lambda>c. case c of
                Num r \<Rightarrow> Num r
              | Text t \<Rightarrow> (case parse t of Some r \<Rightarrow> Num r | None \<Rightarrow> NA)
              | NA \<Rightarrow> NA) s"

fun is_number :: "cell \<Rightarrow> bool" where
  "is_number (Num r) = True"
| "is_number c = False"

fun num_val :: "cell \<Rightarrow> real" where
  "num_val (Num r) = r"
| "num_val c = 0"

text \<open>\<^verbatim>\<open>df.dropna(subset=[c])\<close>: the rows whose cell in column c is missing go.\<close>

definition dropna :: "string \<Rightarrow> dataframe \<Rightarrow> error + dataframe" where
  "dropna c df =
     (case getitem df c of
        Inl e \<Rightarrow> Inl e
      | Inr s \<Rightarrow> Inr (take_rows (filter (\<lambda>i. s ! i \<noteq> NA) [0..<length s]) df))"

text \<open>
  \<^verbatim>\<open>df.sort_values(c)\<close> on a numeric column: rows ascending by the number, rows
  without one last.  The library's default sort gives no promise on the order of rows
  with equal keys; the model takes the stable order.
\<close>

definition sort_values :: "string \<Rightarrow> dataframe \<Rightarrow> error + dataframe" where
  "sort_values c df =
     (case getitem df c of
        Inl e \<Rightarrow> Inl e
      | Inr s \<Rightarrow>
          Inr (take_rows
                 (sort_key (\<lambda>i. num_val (s ! i)) (filter (\<lambda>i. is_number (s ! i)) [0..<length s])
                  @ filter (\<lambda>i. \<not> is_number (s ! i)) [0..<length s])
                 df))"

definition tcol :: string where
  "tcol = ''Time''"

definition load :: "(string \<Rightarrow> real option) \<Rightarrow> dataframe \<Rightarrow> error + dataframe" where
  "load parse df =
     (if tcol \<notin> set (columns df) then Inl (SystemExit ''Expected 'Time' column not found.'')
      else
        case getitem df tcol of
          Inl e \<Rightarrow> Inl e
        | Inr s \<Rightarrow>
            (case dropna tcol (setitem df tcol (to_numeric parse s)) of
               Inl e \<Rightarrow> Inl e
             | Inr df1 \<Rightarrow>
                 (case sort_values tcol df1 of
                    Inl e \<Rightarrow> Inl e
                  | Inr df2 \<Rightarrow> filter_columns df2 tcol)))"

section \<open>Derived ECG series (lines 69-75)\<close>

text \<open>
  \<^verbatim>\<open>series * 1000.0\<close>: a number is multiplied by the product of doubles, NaN stays
  NaN, and a text cell makes the multiplication raise TypeError.  The product of two
  doubles is the parameter \<open>fmul\<close> of the model: it rounds, so it is not the product of
  the two reals.  A product that overflows to an infinity has no cell, as an infinite
  input has none.
\<close>

fun mul_cell :: "(real \<Rightarrow> real \<Rightarrow> real) \<Rightarrow> real \<Rightarrow> cell \<Rightarrow> error + cell" where
  "mul_cell fmul k (Num r) = Inr (Num (fmul r k))"
| "mul_cell fmul k NA = Inr NA"
| "mul_cell fmul k (Text t) = Inl TypeError"

fun mul_series :: "(real \<Rightarrow> real \<Rightarrow> real) \<Rightarrow> series \<Rightarrow> real \<Rightarrow> error + series" where
  "mul_series fmul [] k = Inr []"
| "mul_series fmul (c # cs) k =
     (case mul_cell fmul k c of
        Inl e \<Rightarrow> Inl e
      | Inr c' \<Rightarrow>
          (case mul_series fmul cs k of Inl e \<Rightarrow> Inl e | Inr cs' \<Rightarrow> Inr (c' # cs')))"

definition uV_suffix :: string where
  "uV_suffix = '' ('' @ [CHR 0xCE, CHR 0xBC] @ ''V)''"

definition mV_suffix :: string where
  "mV_suffix = '' (mV)''"

text \<open>A Python dict keeps insertion order; storing under a present key keeps its place.\<close>

type_synonym series_dict = "(string \<times> series) list"

definition derive_step ::
  "(real \<Rightarrow> real \<Rightarrow> real) \<Rightarrow> dataframe \<Rightarrow> string \<Rightarrow> series_dict \<times> series_dict \<Rightarrow> error + series_dict \<times> series_dict" where
  "derive_step fmul df raw st =
     (case map_of ECG_CHANNELS raw of
        None \<Rightarrow> Inl (KeyError raw)
      | Some nice \<Rightarrow>
          (case getitem df raw of
             Inl e \<Rightarrow> Inl e
           | Inr s \<Rightarrow>
               (case mul_series fmul s 1000 of
                  Inl e \<Rightarrow> Inl e
                | Inr scaled \<Rightarrow>
                    Inr (AList.update (nice @ uV_suffix) scaled (fst st),
                         AList.update (nice @ mV_suffix) s (snd st)))))"

text \<open>A \<^verbatim>\<open>for\<close> loop whose body may raise: the first error ends it.\<close>

fun for_each :: "('a \<Rightarrow> 's \<Rightarrow> error + 's) \<Rightarrow> 'a list \<Rightarrow> 's \<Rightarrow> error + 's" where
  "for_each f [] st = Inr st"
| "for_each f (a # as) st =
     (case f a st of Inl e \<Rightarrow> Inl e | Inr st' \<Rightarrow> for_each f as st')"

definition derive_ecg ::
  "(real \<Rightarrow> real \<Rightarrow> real) \<Rightarrow> dataframe \<Rightarrow> string list \<Rightarrow> error + series_dict \<times> series_dict" where
  "derive_ecg fmul df ecg_raw_cols = for_each (derive_step fmul df) ecg_raw_cols ([], [])"

section \<open>Traces and figure (lines 77-123)\<close>

text \<open>
  A scatter trace.  \<open>tr_visible\<close> and \<open>tr_dash\<close> are None where the source sets
  nothing; the plotting library then draws the trace visible and solid.
\<close>

record trace =
  tr_name :: string
  tr_x :: series
  tr_y :: series
  tr_mode :: string
  tr_visible :: "bool option"
  tr_dash :: "string option"
  tr_secondary_y :: bool

record figure =
  fig_secondary_y :: bool
  fig_data :: "trace list"

record trace_indices =
  ti_EEG :: "nat list"
  ti_ECG_uV :: "nat list"
  ti_ECG_mV :: "nat list"
  ti_CM :: "nat list"

definition Scatter :: "series \<Rightarrow> series \<Rightarrow> string \<Rightarrow> bool option \<Rightarrow> string option \<Rightarrow> trace" where
  "Scatter xs ys nm vis dash =
     \<lparr>tr_name = nm, tr_x = xs, tr_y = ys, tr_mode = ''lines'', tr_visible = vis,
      tr_dash = dash, tr_secondary_y = False\<rparr>"

definition make_subplots :: "bool \<Rightarrow> figure" where
  "make_subplots use_secondary = \<lparr>fig_secondary_y = use_secondary, fig_data = []\<rparr>"

definition add_trace :: "figure \<Rightarrow> trace \<Rightarrow> bool \<Rightarrow> figure" where
  "add_trace fig tr sec = fig\<lparr>fig_data := fig_data fig @ [tr\<lparr>tr_secondary_y := sec\<rparr>]\<rparr>"

definition empty_indices :: trace_indices where
  "empty_indices = \<lparr>ti_EEG = [], ti_ECG_uV = [], ti_ECG_mV = [], ti_CM = []\<rparr>"

definition add_eeg ::
  "dataframe \<Rightarrow> string \<Rightarrow> figure \<times> trace_indices \<Rightarrow> error + figure \<times> trace_indices" where
  "add_eeg df ch st =
     (case getitem df tcol of
        Inl e \<Rightarrow> Inl e
      | Inr t \<Rightarrow>
          (case getitem df ch of
             Inl e \<Rightarrow> Inl e
           | Inr s \<Rightarrow>
               (let fig = add_trace (fst st) (Scatter t s ch None None) False
                in Inr (fig, (snd st)\<lparr>ti_EEG := ti_EEG (snd st) @ [length (fig_data fig) - 1]\<rparr>))))"

definition CM_label :: string where
  "CM_label = ''CM ('' @ [CHR 0xCE, CHR 0xBC] @ ''V, reference)''"

definition add_cm ::
  "dataframe \<Rightarrow> string \<Rightarrow> figure \<times> trace_indices \<Rightarrow> error + figure \<times> trace_indices" where
  "add_cm df ch st =
     (case getitem df tcol of
        Inl e \<Rightarrow> Inl e
      | Inr t \<Rightarrow>
          (case getitem df ch of
             Inl e \<Rightarrow> Inl e
           | Inr s \<Rightarrow>
               (let fig = add_trace (fst st) (Scatter t s CM_label None (Some ''dot'')) True
                in Inr (fig, (snd st)\<lparr>ti_CM := ti_CM (snd st) @ [length (fig_data fig) - 1]\<rparr>))))"

definition add_mv ::
  "dataframe \<Rightarrow> string \<times> series \<Rightarrow> figure \<times> trace_indices \<Rightarrow> error + figure \<times> trace_indices" where
  "add_mv df item st =
     (case getitem df tcol of
        Inl e \<Rightarrow> Inl e
      | Inr t \<Rightarrow>
          (let fig = add_trace (fst st) (Scatter t (snd item) (fst item) None None) True
           in Inr (fig, (snd st)\<lparr>ti_ECG_mV := ti_ECG_mV (snd st) @ [length (fig_data fig) - 1]\<rparr>)))"

definition add_uv ::
  "dataframe \<Rightarrow> string \<times> series \<Rightarrow> figure \<times> trace_indices \<Rightarrow> error + figure \<times> trace_indices" where
  "add_uv df item st =
     (case getitem df tcol of
        Inl e \<Rightarrow> Inl e
      | Inr t \<Rightarrow>
          (let fig = add_trace (fst st) (Scatter t (snd item) (fst item) (Some False) None) True
           in Inr (fig, (snd st)\<lparr>ti_ECG_uV := ti_ECG_uV (snd st) @ [length (fig_data fig) - 1]\<rparr>)))"

definition add_traces ::
  "dataframe \<Rightarrow> string list \<Rightarrow> string list \<Rightarrow> series_dict \<Rightarrow> series_dict \<Rightarrow>
   figure \<times> trace_indices \<Rightarrow> error + figure \<times> trace_indices" where
  "add_traces df eeg_cols cm_cols ecg_mv ecg_uv st =
     (case for_each (add_eeg df) eeg_cols st of
        Inl e \<Rightarrow> Inl e
      | Inr st1 \<Rightarrow>
          (case for_each (add_cm df) cm_cols st1 of
             Inl e \<Rightarrow> Inl e
           | Inr st2 \<Rightarrow>
               (case for_each (add_mv df) ecg_mv st2 of
                  Inl e \<Rightarrow> Inl e
                | Inr st3 \<Rightarrow> for_each (add_uv df) ecg_uv st3)))"

section \<open>Visibility vectors and menus (lines 141-214)\<close>

definition set_all :: "bool \<Rightarrow> nat list \<Rightarrow> bool list \<Rightarrow> bool list" where
  \<comment> \<open>\<^verbatim>\<open>for i in idxs: vis[i] = b\<close>; every index the program stores is in range\<close>
  "set_all b idxs vis = fold (\<lambda>i v. v[i := b]) idxs vis"

definition visibility_all :: "figure \<Rightarrow> bool list" where
  "visibility_all fig = replicate (length (fig_data fig)) True"

definition vis_eeg_only :: "figure \<Rightarrow> trace_indices \<Rightarrow> bool list" where
  "vis_eeg_only fig ti = set_all True (ti_EEG ti) (replicate (length (fig_data fig)) False)"

definition vis_other_only :: "figure \<Rightarrow> trace_indices \<Rightarrow> bool list" where
  "vis_other_only fig ti =
     fold (\<lambda>(grp, idxs) vis. fold (\<lambda>i v. if grp = ''ECG_uV'' then v else v[i := True]) idxs vis)
       [(''CM'', ti_CM ti), (''ECG_mV'', ti_ECG_mV ti), (''ECG_uV'', ti_ECG_uV ti)]
       (replicate (length (fig_data fig)) False)"

definition unit_mode_visibility :: "figure \<Rightarrow> trace_indices \<Rightarrow> string \<Rightarrow> bool list" where
  "unit_mode_visibility fig ti mode =
     (let vis = map (\<lambda>tr. case tr_visible tr of None \<Rightarrow> True | Some b \<Rightarrow> b) (fig_data fig)
      in if mode = ''mV''
         then set_all False (ti_ECG_uV ti) (set_all True (ti_ECG_mV ti) vis)
         else set_all True (ti_ECG_uV ti) (set_all False (ti_ECG_mV ti) vis))"

text \<open>
  The scene handed to the plotting library and written out: the figure, the two axis
  titles, the preset menu (label, visibility vector) and the unit menu (label,
  visibility vector, title of the right axis).
\<close>

record scene =
  sc_fig :: figure
  sc_yaxis_title :: string
  sc_yaxis2_title :: "string option"
  sc_presets :: "(string \<times> bool list) list"
  sc_units :: "(string \<times> bool list \<times> string) list"

definition mV_axis_title :: string where
  "mV_axis_title = ''ECG (mV) / CM ('' @ [CHR 0xCE, CHR 0xBC] @ ''V)''"

definition uV_axis_title :: string where
  "uV_axis_title =
     ''ECG ('' @ [CHR 0xCE, CHR 0xBC] @ ''V) / CM ('' @ [CHR 0xCE, CHR 0xBC] @ ''V)''"

definition make_scene :: "figure \<Rightarrow> trace_indices \<Rightarrow> scene" where
  "make_scene fig ti =
     \<lparr>sc_fig = fig,
      sc_yaxis_title = ''EEG & CM ('' @ [CHR 0xCE, CHR 0xBC] @ ''V)'',
      sc_yaxis2_title = (if fig_secondary_y fig then Some mV_axis_title else None),
      sc_presets =
        [(''All'', visibility_all fig),
         (''EEG only'', vis_eeg_only fig ti),
         (''ECG+CM only'', vis_other_only fig ti)],
      sc_units =
        [(''ECG in mV'', unit_mode_visibility fig ti ''mV'', mV_axis_title),
         (''ECG in '' @ [CHR 0xCE, CHR 0xBC] @ ''V'', unit_mode_visibility fig ti ''uV'',
          uV_axis_title)]\<rparr>"

section \<open>The program (lines 44-221)\<close>

definition data_cols :: "dataframe \<Rightarrow> string list" where
  "data_cols df = filter (\<lambda>c. c \<noteq> tcol) (columns df)"

definition eeg_cols :: "dataframe \<Rightarrow> string list" where
  "eeg_cols df = fst (split_roles (data_cols df))"

definition ecg_raw_cols :: "dataframe \<Rightarrow> string list" where
  "ecg_raw_cols df = fst (snd (split_roles (data_cols df)))"

definition cm_cols :: "dataframe \<Rightarrow> string list" where
  "cm_cols df = snd (snd (split_roles (data_cols df)))"

text \<open>
  Lines 63-123 on the loaded frame: the role split, the check that some column has a
  role, the derived series, and the figure with its index bookkeeping.
\<close>

definition build :: "(real \<Rightarrow> real \<Rightarrow> real) \<Rightarrow> dataframe \<Rightarrow> error + figure \<times> trace_indices" where
  "build fmul df =
     (if eeg_cols df = [] \<and> ecg_raw_cols df = [] \<and> cm_cols df = []
      then Inl (SystemExit ''No EEG/ECG/CM columns found after filtering. Check headers.'')
      else
        case derive_ecg fmul df (ecg_raw_cols df) of
          Inl e \<Rightarrow> Inl e
        | Inr d \<Rightarrow>
            (let ecg_uv = fst d; ecg_mv = snd d;
                 use_secondary = (length ecg_uv + length (cm_cols df) > 0)
             in add_traces df (eeg_cols df) (cm_cols df) ecg_mv ecg_uv
                  (make_subplots use_secondary, empty_indices)))"

text \<open>
  The whole run on the table the CSV reader returned.  \<open>Inr\<close> is the scene that is
  written to the output file; \<open>Inl\<close> is the exception that ends the run before
  anything is written.
\<close>

definition main ::
  "(real \<Rightarrow> real \<Rightarrow> real) \<Rightarrow> (string \<Rightarrow> real option) \<Rightarrow> dataframe \<Rightarrow> error + scene" where
  "main fmul parse df =
     (case load parse df of
        Inl e \<Rightarrow> Inl e
      | Inr df' \<Rightarrow>
          (case build fmul df' of
             Inl e \<Rightarrow> Inl e
           | Inr st \<Rightarrow> Inr (make_scene (fst st) (snd st))))"

text \<open>
  The viewer applies a menu option by overwriting the visibility of every trace with
  the option's vector.
\<close>

definition select_option :: "bool list \<Rightarrow> bool list \<Rightarrow> bool list" where
  "select_option vec current = map (\<lambda>i. if i < length vec then vec ! i else current ! i)
                                  [0..<length current]"

section \<open>Closed forms used in the proofs\<close>

text \<open>
  The definitions of this section are not part of the program.  They name what the
  lemmas below show the program to compute: the column behind a successful lookup, the
  order in which the surviving rows are taken, the loaded frame, and the trace list
  with its index bookkeeping.
\<close>

definition column :: "dataframe \<Rightarrow> string \<Rightarrow> series" where
  "column df c = (case map_of df c of None \<Rightarrow> [] | Some s \<Rightarrow> s)"

definition time_axis :: "(string \<Rightarrow> real option) \<Rightarrow> dataframe \<Rightarrow> series" where
  "time_axis parse df = to_numeric parse (column df tcol)"

definition row_order :: "(string \<Rightarrow> real option) \<Rightarrow> dataframe \<Rightarrow> nat list" where
  "row_order parse df =
     sort_key (\<lambda>i. num_val (time_axis parse df ! i))
       (filter (\<lambda>i. time_axis parse df ! i \<noteq> NA) [0..<length (time_axis parse df)])"

definition loaded :: "(string \<Rightarrow> real option) \<Rightarrow> dataframe \<Rightarrow> dataframe" where
  "loaded parse df =
     map (\<lambda>c. (c, map ((!) (if c = tcol then time_axis parse df else column df c)) (row_order parse df)))
       (kept_names (columns df) tcol)"

fun is_text :: "cell \<Rightarrow> bool" where
  "is_text (Text t) = True"
| "is_text c = False"

fun scale_cell :: "(real \<Rightarrow> real \<Rightarrow> real) \<Rightarrow> real \<Rightarrow> cell \<Rightarrow> cell" where
  "scale_cell fmul k (Num r) = Num (fmul r k)"
| "scale_cell fmul k c = c"

definition nice_name :: "string \<Rightarrow> string" where
  "nice_name raw = (case map_of ECG_CHANNELS raw of None \<Rightarrow> [] | Some n \<Rightarrow> n)"

definition eeg_trace :: "dataframe \<Rightarrow> string \<Rightarrow> trace" where
  "eeg_trace df ch = (Scatter (column df tcol) (column df ch) ch None None)\<lparr>tr_secondary_y := False\<rparr>"

definition cm_trace :: "dataframe \<Rightarrow> string \<Rightarrow> trace" where
  "cm_trace df ch =
     (Scatter (column df tcol) (column df ch) CM_label None (Some ''dot''))\<lparr>tr_secondary_y := True\<rparr>"

definition mv_trace :: "dataframe \<Rightarrow> string \<Rightarrow> trace" where
  "mv_trace df raw =
     (Scatter (column df tcol) (column df raw) (nice_name raw @ mV_suffix) None None)
       \<lparr>tr_secondary_y := True\<rparr>"

definition uv_trace :: "(real \<Rightarrow> real \<Rightarrow> real) \<Rightarrow> dataframe \<Rightarrow> string \<Rightarrow> trace" where
  "uv_trace fmul df raw =
     (Scatter (column df tcol) (map (scale_cell fmul 1000) (column df raw)) (nice_name raw @ uV_suffix)
        (Some False) None)\<lparr>tr_secondary_y := True\<rparr>"

definition built_traces :: "(real \<Rightarrow> real \<Rightarrow> real) \<Rightarrow> dataframe \<Rightarrow> trace list" where
  "built_traces fmul df =
     map (eeg_trace df) (eeg_cols df) @ map (cm_trace df) (cm_cols df)
     @ map (mv_trace df) (ecg_raw_cols df) @ map (uv_trace fmul df) (ecg_raw_cols df)"

definition built_figure :: "(real \<Rightarrow> real \<Rightarrow> real) \<Rightarrow> dataframe \<Rightarrow> figure" where
  "built_figure fmul df =
     \<lparr>fig_secondary_y = (ecg_raw_cols df \<noteq> [] \<or> cm_cols df \<noteq> []), fig_data = built_traces fmul df\<rparr>"

definition built_indices :: "dataframe \<Rightarrow> trace_indices" where
  "built_indices df =
     (let e = length (eeg_cols df); c = length (cm_cols df); m = length (ecg_raw_cols df)
      in \<lparr>ti_EEG = [0..<e], ti_ECG_uV = [e + c + m..<e + c + m + m],
          ti_ECG_mV = [e + c..<e + c + m], ti_CM = [e..<e + c]\<rparr>)"

section \<open>The product of doubles\<close>

text \<open>
  The product of two finite doubles as the machine computes it (IEEE 754 binary64, round
  to nearest, ties to even): the exact product is rounded to 53 significant bits, and
  to a multiple of \<open>2 ^ -1074\<close> below the normal range.  It is the machine's product
  wherever that is finite, that is where the rounded value is below \<open>2 ^ 1024\<close>.
  \<open>binade x\<close> is the exponent \<open>e\<close> with \<open>2 ^ e \<le> |x| < 2 ^ (e + 1)\<close>, searched with
  more steps than the doubles have exponents.
\<close>

fun binade_search :: "nat \<Rightarrow> real \<Rightarrow> int" where
  "binade_search 0 x = 0"
| "binade_search (Suc n) x =
     (if 2 \<le> x then binade_search n (x / 2) + 1
      else if x < 1 then binade_search n (x * 2) - 1
      else 0)"

definition binade :: "real \<Rightarrow> int" where
  "binade x = binade_search 2200 \<bar>x\<bar>"

definition pow2 :: "int \<Rightarrow> real" where
  "pow2 e = (if 0 \<le> e then 2 ^ nat e else 1 / 2 ^ nat (- e))"

definition round_half_even :: "real \<Rightarrow> int" where
  "round_half_even x =
     (let f = \<lfloor>x\<rfloor>; d = x - of_int f
      in if d < 1 / 2 then f else if 1 / 2 < d then f + 1 else if even f then f else f + 1)"

definition round_double :: "real \<Rightarrow> real" where
  "round_double x =
     (if x = 0 then 0
      else let e = max (binade x) (- 1022) - 52
           in of_int (round_half_even (x / pow2 e)) * pow2 e)"

definition double_mul :: "real \<Rightarrow> real \<Rightarrow> real" where
  "double_mul x y = round_double (x * y)"

section \<open>A sample table\<close>

definition ex_parse :: "string \<Rightarrow> real option" where
  "ex_parse t = (if t = ''1'' then Some 1 else if t = ''2'' then Some 2 else None)"

definition ex_table :: dataframe where
  "ex_table =
     [(''Time'', [Text ''2'', Text ''x'', Text ''1'']),
      (''Fz'', [Num 5, Num 6, Num 7]),
      (''X1:LEOG'', [Num 4, Num 2, NA]),
      (''CM'', [Num 0, Num 8, Num 3]),
      (''Trigger'', [NA, NA, NA])]"

definition ex_loaded :: dataframe where
  "ex_loaded =
     [(''Time'', [Num 1, Num 2]), (''Fz'', [Num 7, Num 5]),
      (''X1:LEOG'', [NA, Num 4]), (''CM'', [Num 3, Num 0])]"

definition ex_scene :: scene where
  "ex_scene =
     \<lparr>sc_fig =
        \<lparr>fig_secondary_y = True,
         fig_data =
           [\<lparr>tr_name = ''Fz'', tr_x = [Num 1, Num 2], tr_y = [Num 7, Num 5], tr_mode = ''lines'',
             tr_visible = None, tr_dash = None, tr_secondary_y = False\<rparr>,
            \<lparr>tr_name = CM_label, tr_x = [Num 1, Num 2], tr_y = [Num 3, Num 0],
             tr_mode = ''lines'', tr_visible = None, tr_dash = Some ''dot'',
             tr_secondary_y = True\<rparr>,
            \<lparr>tr_name = ''ECG_Left (mV)'', tr_x = [Num 1, Num 2], tr_y = [NA, Num 4],
             tr_mode = ''lines'', tr_visible = None, tr_dash = None, tr_secondary_y = True\<rparr>,
            \<lparr>tr_name = ''ECG_Left'' @ uV_suffix, tr_x = [Num 1, Num 2], tr_y = [NA, Num 4000],
             tr_mode = ''lines'', tr_visible = Some False, tr_dash = None,
             tr_secondary_y = True\<rparr>]\<rparr>,
      sc_yaxis_title = ''EEG & CM ('' @ [CHR 0xCE, CHR 0xBC] @ ''V)'',
      sc_yaxis2_title = Some mV_axis_title,
      sc_presets =
        [(''All'', [True, True, True, True]),
         (''EEG only'', [True, False, False, False]),
         (''ECG+CM only'', [False, True, True, False])],
      sc_units =
        [(''ECG in mV'', [True, True, True, False], mV_axis_title),
         (''ECG in '' @ [CHR 0xCE, CHR 0xBC] @ ''V'', [True, True, False, True], uV_axis_title)]\<rparr>"

definition ex_indices :: trace_indices where
  "ex_indices = \<lparr>ti_EEG = [0], ti_ECG_uV = [3], ti_ECG_mV = [2], ti_CM = [1]\<rparr>"

section \<open>The classification as the specification words it\<close>

text \<open>
  Written from the specification, to be compared with \<open>filter_columns\<close> and
  \<open>split_roles\<close>: the ignore rule comes first, then the roster of scalp electrodes, the
  keys of the remapping table, and the reference label; a name that matches nothing has
  no role.
\<close>

datatype role = Role_EEG | Role_ECG_raw | Role_Reference | Role_Ignored | Role_None

definition spec_role :: "string \<Rightarrow> role" where
  "spec_role c =
     (if c \<in> set IGNORE_EXACT \<or> (\<exists>pfx \<in> set IGNORE_PREFIXES. startswith c pfx) then Role_Ignored
      else if c \<in> set EEG_CHANNELS then Role_EEG
      else if c \<in> fst ` set ECG_CHANNELS then Role_ECG_raw
      else if c = ''CM'' then Role_Reference
      else Role_None)"



text \<open>A table whose ECG column holds text.\<close>

definition ex_bad :: dataframe where
  "ex_bad = [(''Time'', [Num 0]), (''X1:LEOG'', [Text ''abc''])]"

definition ex_bad_loaded :: dataframe where
  "ex_bad_loaded = [(''Time'', [Num 0]), (''X1:LEOG'', [Text ''abc''])]"

text \<open>A table with the header of the sample table and other cells.\<close>

definition ex_other :: dataframe where
  "ex_other =
     [(''Time'', [Num 1]), (''Fz'', [NA]), (''X1:LEOG'', [Num 0]), (''CM'', [Text ''q'']),
      (''Trigger'', [Num 9])]"

definition ex_other_loaded :: dataframe where
  "ex_other_loaded =
     [(''Time'', [Num 1]), (''Fz'', [NA]), (''X1:LEOG'', [Num 0]), (''CM'', [Text ''q''])]"

section \<open>The program in closed form\<close>

lemma getitem_column: "c \<in> set (columns df) \<Longrightarrow> getitem df c = Inr (column df c)"
  by (auto simp: getitem_def column_def columns_def map_of_eq_None_iff split: option.splits)

lemma getitems_columns:
  "set cs \<subseteq> set (columns df) \<Longrightarrow> getitems df cs = Inr (map (\<lambda>c. (c, column df c)) cs)"
  by (induction cs) (simp_all add: getitem_column)

lemma columns_take_rows: "columns (take_rows idx df) = columns df"
  by (simp add: columns_def take_rows_def case_prod_unfold comp_def)

lemma map_of_take_rows:
  "map_of (take_rows idx df) c = map_option (\<lambda>s. map ((!) s) idx) (map_of df c)"
  by (induction df) (auto simp: take_rows_def)

lemma column_take_rows:
  "c \<in> set (columns df) \<Longrightarrow> column (take_rows idx df) c = map ((!) (column df c)) idx"
  by (auto simp: column_def map_of_take_rows columns_def map_of_eq_None_iff split: option.splits)

lemma columns_setitem: "c \<in> set (columns df) \<Longrightarrow> columns (setitem df c s) = columns df"
  by (simp add: columns_def setitem_def update_keys)

lemma column_setitem: "column (setitem df c s) c' = (if c' = c then s else column df c')"
  by (simp add: column_def setitem_def update_conv')

lemma insort_key_map:
  "insort_key f (g x) (map g ys) = map g (insort_key (\<lambda>a. f (g a)) x ys)"
  by (induction ys) simp_all

lemma sort_key_map: "sort_key f (map g xs) = map g (sort_key (\<lambda>a. f (g a)) xs)"
  by (induction xs) (simp_all add: insort_key_map)

lemma insort_key_cong_set:
  "f x = g x \<Longrightarrow> (\<And>y. y \<in> set ys \<Longrightarrow> f y = g y) \<Longrightarrow> insort_key f x ys = insort_key g x ys"
  by (induction ys) simp_all

lemma sort_key_cong_set:
  "(\<And>x. x \<in> set xs \<Longrightarrow> f x = g x) \<Longrightarrow> sort_key f xs = sort_key g xs"
proof (induction xs)
  case Nil
  then show ?case by simp
next
  case (Cons a xs)
  have "sort_key f xs = sort_key g xs" using Cons by simp
  moreover have "insort_key f a (sort_key g xs) = insort_key g a (sort_key g xs)"
    by (rule insort_key_cong_set) (simp_all add: Cons.prems)
  ultimately show ?case by simp
qed

lemma to_numeric_cell: "i < length s \<Longrightarrow> to_numeric parse s ! i \<noteq> NA \<Longrightarrow> is_number (to_numeric parse s ! i)"
  by (auto simp: to_numeric_def split: cell.splits option.splits)

lemma length_to_numeric [simp]: "length (to_numeric parse s) = length s"
  by (simp add: to_numeric_def)

lemma sort_nth_upt:
  "map ((!) ks) (sort_key (\<lambda>j. f (ks ! j)) [0..<length ks]) = sort_key f ks"
proof -
  have "sort_key f ks = sort_key f (map ((!) ks) [0..<length ks])"
    by (simp add: map_nth)
  also have "\<dots> = map ((!) ks) (sort_key (\<lambda>j. f (ks ! j)) [0..<length ks])"
    by (rule sort_key_map)
  finally show ?thesis by simp
qed

lemma load_eq:
  assumes "tcol \<in> set (columns df)"
  shows "load parse df = Inr (loaded parse df)"
proof -
  let ?t = "time_axis parse df"
  let ?df0 = "setitem df tcol ?t"
  let ?keep = "filter (\<lambda>i. ?t ! i \<noteq> NA) [0..<length ?t]"
  let ?df1 = "take_rows ?keep ?df0"
  let ?s1 = "map ((!) ?t) ?keep"
  let ?ord = "sort_key (\<lambda>j. num_val (?s1 ! j)) [0..<length ?keep]"
  let ?df2 = "take_rows ?ord ?df1"
  have c0: "columns ?df0 = columns df" using assms by (rule columns_setitem)
  have t0: "column ?df0 tcol = ?t" by (simp add: column_setitem)
  have g0: "getitem df tcol = Inr (column df tcol)" using assms by (rule getitem_column)
  have d1: "dropna tcol ?df0 = Inr ?df1"
    using assms by (simp add: dropna_def getitem_column c0 t0)
  have c1: "columns ?df1 = columns df" by (simp add: columns_take_rows c0)
  have t1: "column ?df1 tcol = ?s1"
    using assms by (simp add: column_take_rows c0 t0)
  have allnum: "\<forall>j < length ?s1. is_number (?s1 ! j)"
  proof (intro allI impI)
    fix j assume j: "j < length ?s1"
    then have "?keep ! j \<in> set ?keep" by (intro nth_mem) simp
    then have "?keep ! j < length ?t" and "?t ! (?keep ! j) \<noteq> NA"
      unfolding set_filter by simp_all
    with j show "is_number (?s1 ! j)"
      using to_numeric_cell [of "?keep ! j" "column df tcol" parse] by (simp add: time_axis_def)
  qed
  have f1: "filter (\<lambda>i. is_number (?s1 ! i)) [0..<length ?s1] = [0..<length ?s1]"
    using allnum by (simp add: filter_id_conv)
  have f2: "filter (\<lambda>i. \<not> is_number (?s1 ! i)) [0..<length ?s1] = []"
    using allnum by (simp add: filter_empty_conv)
  have d2: "sort_values tcol ?df1 = Inr ?df2"
    using assms f1 f2 by (simp add: sort_values_def getitem_column c1 t1)
  have c2: "columns ?df2 = columns df" by (simp add: columns_take_rows c0)
  have ord_set: "set ?ord = {0..<length ?keep}" by simp
  have ordk: "map ((!) ?keep) ?ord = row_order parse df"
  proof -
    have "?ord = sort_key (\<lambda>j. num_val (?t ! (?keep ! j))) [0..<length ?keep]"
      by (rule sort_key_cong_set) simp
    then show ?thesis
      using sort_nth_upt [of ?keep "\<lambda>i. num_val (?t ! i)"] by (simp add: row_order_def)
  qed
  have col2: "column ?df2 c = map ((!) (if c = tcol then ?t else column df c)) (row_order parse df)"
    if "c \<in> set (columns df)" for c
  proof -
    have "column ?df2 c = map ((!) (map ((!) (column ?df0 c)) ?keep)) ?ord"
      using that by (simp add: column_take_rows c1 c0)
    also have "\<dots> = map ((!) (column ?df0 c)) (map ((!) ?keep) ?ord)"
      using ord_set by (auto simp del: set_sort)
    finally show ?thesis by (simp add: ordk column_setitem)
  qed
  have sub: "set (kept_names (columns df) tcol) \<subseteq> set (columns df)"
    using assms by (auto simp: kept_names_def)
  have "filter_columns ?df2 tcol = Inr (map (\<lambda>c. (c, column ?df2 c)) (kept_names (columns df) tcol))"
    unfolding filter_columns_def c2 using sub
    by (intro getitems_columns) (simp add: c2)
  also have "map (\<lambda>c. (c, column ?df2 c)) (kept_names (columns df) tcol) = loaded parse df"
    unfolding loaded_def using sub by (intro map_cong refl) (auto simp: col2)
  finally have fc: "filter_columns ?df2 tcol = Inr (loaded parse df)" .
  show ?thesis
    using assms by (simp add: load_def g0 time_axis_def [symmetric] d1 d2 fc)
qed

lemma mul_series_eq:
  "mul_series fmul s k = (if list_ex is_text s then Inl TypeError else Inr (map (scale_cell fmul k) s))"
proof (induction s)
  case Nil
  then show ?case by simp
next
  case (Cons c s)
  then show ?case by (cases c) simp_all
qed

lemma update_fresh: "k \<notin> fst ` set al \<Longrightarrow> AList.update k v al = al @ [(k, v)]"
  by (induction al) auto

lemma nice_name_inj:
  "map_of ECG_CHANNELS a \<noteq> None \<Longrightarrow> map_of ECG_CHANNELS b \<noteq> None \<Longrightarrow>
   nice_name a = nice_name b \<Longrightarrow> a = b"
  by (simp add: nice_name_def ECG_CHANNELS_def split: if_splits)

lemma derive_loop:
  assumes "distinct raws" "set raws \<subseteq> set (columns df)"
    and "\<forall>r \<in> set raws. map_of ECG_CHANNELS r \<noteq> None"
    and "\<forall>r \<in> set raws. nice_name r @ uV_suffix \<notin> fst ` set uv"
    and "\<forall>r \<in> set raws. nice_name r @ mV_suffix \<notin> fst ` set mv"
  shows "for_each (derive_step fmul df) raws (uv, mv) =
     (if \<exists>r \<in> set raws. list_ex is_text (column df r) then Inl TypeError
      else Inr (uv @ map (\<lambda>r. (nice_name r @ uV_suffix, map (scale_cell fmul 1000) (column df r))) raws,
                mv @ map (\<lambda>r. (nice_name r @ mV_suffix, column df r)) raws))"
  using assms
proof (induction raws arbitrary: uv mv)
  case Nil
  then show ?case by simp
next
  case (Cons r raws)
  obtain n where n: "map_of ECG_CHANNELS r = Some n" using Cons.prems(3) by auto
  then have nn: "nice_name r = n" by (simp add: nice_name_def)
  have g: "getitem df r = Inr (column df r)" using Cons.prems(2) by (simp add: getitem_column)
  show ?case
  proof (cases "list_ex is_text (column df r)")
    case True
    then show ?thesis by (simp add: derive_step_def n g mul_series_eq)
  next
    case False
    let ?uv = "uv @ [(n @ uV_suffix, map (scale_cell fmul 1000) (column df r))]"
    let ?mv = "mv @ [(n @ mV_suffix, column df r)]"
    have step: "derive_step fmul df r (uv, mv) = Inr (?uv, ?mv)"
      using False Cons.prems(4,5) by (simp add: derive_step_def n g mul_series_eq update_fresh nn)
    have fresh: "nice_name r' \<noteq> n" if "r' \<in> set raws" for r'
    proof
      assume "nice_name r' = n"
      then have "r' = r" using nice_name_inj [of r' r] Cons.prems(3) that nn by simp
      with that Cons.prems(1) show False by simp
    qed
    have "for_each (derive_step fmul df) raws (?uv, ?mv) =
      (if \<exists>r \<in> set raws. list_ex is_text (column df r) then Inl TypeError
       else Inr (?uv @ map (\<lambda>r. (nice_name r @ uV_suffix, map (scale_cell fmul 1000) (column df r))) raws,
                 ?mv @ map (\<lambda>r. (nice_name r @ mV_suffix, column df r)) raws))"
      using Cons.prems fresh by (intro Cons.IH) auto
    then show ?thesis using False step by (simp add: nn)
  qed
qed

lemma derive_ecg_eq:
  assumes "distinct raws" "set raws \<subseteq> set (columns df)"
    and "\<forall>r \<in> set raws. map_of ECG_CHANNELS r \<noteq> None"
  shows "derive_ecg fmul df raws =
     (if \<exists>r \<in> set raws. list_ex is_text (column df r) then Inl TypeError
      else Inr (map (\<lambda>r. (nice_name r @ uV_suffix, map (scale_cell fmul 1000) (column df r))) raws,
                map (\<lambda>r. (nice_name r @ mV_suffix, column df r)) raws))"
  unfolding derive_ecg_def using derive_loop [OF assms, of "[]" "[]"] by simp

lemma upt_snoc_one: "[a..<a + n] @ [a + n] = [a..<a + Suc n]"
  by simp

lemma eeg_loop:
  assumes "tcol \<in> set (columns df)" "set cols \<subseteq> set (columns df)"
  shows "for_each (add_eeg df) cols (fig, ti) =
     Inr (fig\<lparr>fig_data := fig_data fig @ map (eeg_trace df) cols\<rparr>,
          ti\<lparr>ti_EEG := ti_EEG ti @ [length (fig_data fig)..<length (fig_data fig) + length cols]\<rparr>)"
  using assms
proof (induction cols arbitrary: fig ti)
  case Nil
  then show ?case by simp
next
  case (Cons c cols)
  let ?fig = "fig\<lparr>fig_data := fig_data fig @ [eeg_trace df c]\<rparr>"
  let ?ti = "ti\<lparr>ti_EEG := ti_EEG ti @ [length (fig_data fig)]\<rparr>"
  have step: "add_eeg df c (fig, ti) = Inr (?fig, ?ti)"
    using Cons.prems by (simp add: add_eeg_def getitem_column add_trace_def eeg_trace_def)
  have "for_each (add_eeg df) cols (?fig, ?ti) =
     Inr (?fig\<lparr>fig_data := fig_data ?fig @ map (eeg_trace df) cols\<rparr>,
          ?ti\<lparr>ti_EEG := ti_EEG ?ti @ [length (fig_data ?fig)..<length (fig_data ?fig) + length cols]\<rparr>)"
    using Cons.prems by (intro Cons.IH) auto
  then show ?case using step by (simp add: upt_conv_Cons del: upt_Suc)
qed

lemma cm_loop:
  assumes "tcol \<in> set (columns df)" "set cols \<subseteq> set (columns df)"
  shows "for_each (add_cm df) cols (fig, ti) =
     Inr (fig\<lparr>fig_data := fig_data fig @ map (cm_trace df) cols\<rparr>,
          ti\<lparr>ti_CM := ti_CM ti @ [length (fig_data fig)..<length (fig_data fig) + length cols]\<rparr>)"
  using assms
proof (induction cols arbitrary: fig ti)
  case Nil
  then show ?case by simp
next
  case (Cons c cols)
  let ?fig = "fig\<lparr>fig_data := fig_data fig @ [cm_trace df c]\<rparr>"
  let ?ti = "ti\<lparr>ti_CM := ti_CM ti @ [length (fig_data fig)]\<rparr>"
  have step: "add_cm df c (fig, ti) = Inr (?fig, ?ti)"
    using Cons.prems by (simp add: add_cm_def getitem_column add_trace_def cm_trace_def)
  have "for_each (add_cm df) cols (?fig, ?ti) =
     Inr (?fig\<lparr>fig_data := fig_data ?fig @ map (cm_trace df) cols\<rparr>,
          ?ti\<lparr>ti_CM := ti_CM ?ti @ [length (fig_data ?fig)..<length (fig_data ?fig) + length cols]\<rparr>)"
    using Cons.prems by (intro Cons.IH) auto
  then show ?case using step by (simp add: upt_conv_Cons del: upt_Suc)
qed

lemma mv_loop:
  assumes "tcol \<in> set (columns df)"
  shows "for_each (add_mv df) (map (\<lambda>r. (nice_name r @ mV_suffix, column df r)) raws) (fig, ti) =
     Inr (fig\<lparr>fig_data := fig_data fig @ map (mv_trace df) raws\<rparr>,
          ti\<lparr>ti_ECG_mV := ti_ECG_mV ti @ [length (fig_data fig)..<length (fig_data fig) + length raws]\<rparr>)"
proof (induction raws arbitrary: fig ti)
  case Nil
  then show ?case by simp
next
  case (Cons c raws)
  let ?fig = "fig\<lparr>fig_data := fig_data fig @ [mv_trace df c]\<rparr>"
  let ?ti = "ti\<lparr>ti_ECG_mV := ti_ECG_mV ti @ [length (fig_data fig)]\<rparr>"
  have step: "add_mv df (nice_name c @ mV_suffix, column df c) (fig, ti) = Inr (?fig, ?ti)"
    using assms by (simp add: add_mv_def getitem_column add_trace_def mv_trace_def)
  show ?case using step Cons.IH [of ?fig ?ti] by (simp add: upt_conv_Cons del: upt_Suc)
qed

lemma uv_loop:
  assumes "tcol \<in> set (columns df)"
  shows "for_each (add_uv df)
           (map (\<lambda>r. (nice_name r @ uV_suffix, map (scale_cell fmul 1000) (column df r))) raws) (fig, ti) =
     Inr (fig\<lparr>fig_data := fig_data fig @ map (uv_trace fmul df) raws\<rparr>,
          ti\<lparr>ti_ECG_uV := ti_ECG_uV ti @ [length (fig_data fig)..<length (fig_data fig) + length raws]\<rparr>)"
proof (induction raws arbitrary: fig ti)
  case Nil
  then show ?case by simp
next
  case (Cons c raws)
  let ?fig = "fig\<lparr>fig_data := fig_data fig @ [uv_trace fmul df c]\<rparr>"
  let ?ti = "ti\<lparr>ti_ECG_uV := ti_ECG_uV ti @ [length (fig_data fig)]\<rparr>"
  have step: "add_uv df (nice_name c @ uV_suffix, map (scale_cell fmul 1000) (column df c)) (fig, ti)
                = Inr (?fig, ?ti)"
    using assms by (simp add: add_uv_def getitem_column add_trace_def uv_trace_def)
  show ?case using step Cons.IH [of ?fig ?ti] by (simp add: upt_conv_Cons del: upt_Suc)
qed

lemma roles_subset:
  "set (eeg_cols df) \<subseteq> set (columns df)" "set (ecg_raw_cols df) \<subseteq> set (columns df)"
  "set (cm_cols df) \<subseteq> set (columns df)"
  by (auto simp: eeg_cols_def ecg_raw_cols_def cm_cols_def split_roles_def data_cols_def)

lemma ecg_raw_keys: "\<forall>r \<in> set (ecg_raw_cols df). map_of ECG_CHANNELS r \<noteq> None"
  by (simp add: ecg_raw_cols_def split_roles_def)

lemma distinct_ecg_raw: "distinct (columns df) \<Longrightarrow> distinct (ecg_raw_cols df)"
  by (simp add: ecg_raw_cols_def split_roles_def data_cols_def)

lemma build_eq:
  assumes "tcol \<in> set (columns df)" "distinct (columns df)"
  shows "build fmul df =
     (if eeg_cols df = [] \<and> ecg_raw_cols df = [] \<and> cm_cols df = []
      then Inl (SystemExit ''No EEG/ECG/CM columns found after filtering. Check headers.'')
      else if \<exists>r \<in> set (ecg_raw_cols df). list_ex is_text (column df r) then Inl TypeError
      else Inr (built_figure fmul df, built_indices df))"
proof -
  have d: "derive_ecg fmul df (ecg_raw_cols df) =
     (if \<exists>r \<in> set (ecg_raw_cols df). list_ex is_text (column df r) then Inl TypeError
      else Inr (map (\<lambda>r. (nice_name r @ uV_suffix, map (scale_cell fmul 1000) (column df r))) (ecg_raw_cols df),
                map (\<lambda>r. (nice_name r @ mV_suffix, column df r)) (ecg_raw_cols df)))"
    using assms by (intro derive_ecg_eq distinct_ecg_raw roles_subset ecg_raw_keys)
  have a: "add_traces df (eeg_cols df) (cm_cols df)
             (map (\<lambda>r. (nice_name r @ mV_suffix, column df r)) (ecg_raw_cols df))
             (map (\<lambda>r. (nice_name r @ uV_suffix, map (scale_cell fmul 1000) (column df r))) (ecg_raw_cols df))
             (make_subplots b, empty_indices)
           = Inr (\<lparr>fig_secondary_y = b, fig_data = built_traces fmul df\<rparr>, built_indices df)" for b
    using assms(1)
    by (simp add: add_traces_def eeg_loop cm_loop mv_loop uv_loop roles_subset make_subplots_def
        empty_indices_def built_traces_def built_indices_def Let_def add.assoc)
  show ?thesis
    by (simp add: build_def d a built_figure_def Let_def)
qed

lemma length_set_all [simp]: "length (set_all b idxs vis) = length vis"
  unfolding set_all_def by (induction idxs arbitrary: vis) simp_all

lemma nth_set_all:
  "i < length vis \<Longrightarrow> set_all b idxs vis ! i = (if i \<in> set idxs then b else vis ! i)"
  unfolding set_all_def
proof (induction idxs arbitrary: vis)
  case Nil
  then show ?case by simp
next
  case (Cons a idxs)
  then show ?case by (simp add: nth_list_update)
qed

lemma columns_loaded: "columns (loaded parse df) = kept_names (columns df) tcol"
  by (simp add: columns_def loaded_def comp_def)

lemma distinct_loaded: "distinct (columns df) \<Longrightarrow> distinct (columns (loaded parse df))"
  by (simp add: columns_loaded kept_names_def)

lemma tcol_loaded: "tcol \<in> set (columns (loaded parse df))"
  by (simp add: columns_loaded kept_names_def)

lemma main_eq:
  assumes "distinct (columns df)"
  shows "main fmul parse df =
     (if tcol \<notin> set (columns df) then Inl (SystemExit ''Expected 'Time' column not found.'')
      else if eeg_cols (loaded parse df) = [] \<and> ecg_raw_cols (loaded parse df) = []
              \<and> cm_cols (loaded parse df) = []
      then Inl (SystemExit ''No EEG/ECG/CM columns found after filtering. Check headers.'')
      else if \<exists>r \<in> set (ecg_raw_cols (loaded parse df)). list_ex is_text (column (loaded parse df) r)
      then Inl TypeError
      else Inr (make_scene (built_figure fmul (loaded parse df)) (built_indices (loaded parse df))))"
proof (cases "tcol \<in> set (columns df)")
  case False
  then show ?thesis by (simp add: main_def load_def)
next
  case True
  have b: "build fmul (loaded parse df) =
     (if eeg_cols (loaded parse df) = [] \<and> ecg_raw_cols (loaded parse df) = []
         \<and> cm_cols (loaded parse df) = []
      then Inl (SystemExit ''No EEG/ECG/CM columns found after filtering. Check headers.'')
      else if \<exists>r \<in> set (ecg_raw_cols (loaded parse df)). list_ex is_text (column (loaded parse df) r)
      then Inl TypeError
      else Inr (built_figure fmul (loaded parse df), built_indices (loaded parse df)))"
    using assms by (intro build_eq tcol_loaded distinct_loaded)
  show ?thesis using True by (simp add: main_def load_eq b)
qed

lemma initial_vis:
  "map (\<lambda>tr. case tr_visible tr of None \<Rightarrow> True | Some b \<Rightarrow> b) (built_traces fmul df) =
     replicate (length (eeg_cols df) + length (cm_cols df) + length (ecg_raw_cols df)) True
     @ replicate (length (ecg_raw_cols df)) False"
  by (simp add: built_traces_def comp_def eeg_trace_def cm_trace_def mv_trace_def uv_trace_def
      Scatter_def map_replicate_const replicate_add)

lemma length_built_traces:
  "length (built_traces fmul df) = length (eeg_cols df) + length (cm_cols df) + 2 * length (ecg_raw_cols df)"
  by (simp add: built_traces_def)

lemma visibility_all_built:
  "visibility_all (built_figure fmul df) =
     replicate (length (eeg_cols df) + length (cm_cols df) + 2 * length (ecg_raw_cols df)) True"
  by (simp add: visibility_all_def built_figure_def length_built_traces)

lemma vis_eeg_only_built:
  "vis_eeg_only (built_figure fmul df) (built_indices df) =
     replicate (length (eeg_cols df)) True
     @ replicate (length (cm_cols df) + 2 * length (ecg_raw_cols df)) False"
  by (rule nth_equalityI)
     (auto simp: vis_eeg_only_def built_figure_def built_indices_def Let_def length_built_traces
        nth_set_all nth_append)

lemma vis_other_only_built:
  "vis_other_only (built_figure fmul df) (built_indices df) =
     replicate (length (eeg_cols df)) False
     @ replicate (length (cm_cols df) + length (ecg_raw_cols df)) True
     @ replicate (length (ecg_raw_cols df)) False"
proof -
  have skip: "fold (\<lambda>i v. v) idxs v = v" for idxs :: "nat list" and v :: "bool list"
    by (induction idxs) simp_all
  have "vis_other_only (built_figure fmul df) (built_indices df) =
     set_all True (ti_ECG_mV (built_indices df))
       (set_all True (ti_CM (built_indices df)) (replicate (length (built_traces fmul df)) False))"
    by (simp add: vis_other_only_def set_all_def built_figure_def skip)
  also have "\<dots> = replicate (length (eeg_cols df)) False
     @ replicate (length (cm_cols df) + length (ecg_raw_cols df)) True
     @ replicate (length (ecg_raw_cols df)) False"
    by (rule nth_equalityI)
       (auto simp: built_indices_def Let_def length_built_traces nth_set_all nth_append)
  finally show ?thesis .
qed

lemma unit_mV_built:
  "unit_mode_visibility (built_figure fmul df) (built_indices df) ''mV'' =
     replicate (length (eeg_cols df) + length (cm_cols df) + length (ecg_raw_cols df)) True
     @ replicate (length (ecg_raw_cols df)) False"
  by (rule nth_equalityI)
     (auto simp: unit_mode_visibility_def built_figure_def initial_vis built_indices_def Let_def
        nth_set_all nth_append)

lemma unit_uV_built:
  "unit_mode_visibility (built_figure fmul df) (built_indices df) ''uV'' =
     replicate (length (eeg_cols df) + length (cm_cols df)) True
     @ replicate (length (ecg_raw_cols df)) False
     @ replicate (length (ecg_raw_cols df)) True"
  by (rule nth_equalityI)
     (auto simp: unit_mode_visibility_def built_figure_def initial_vis built_indices_def Let_def
        nth_set_all nth_append)

lemma wf_ex_table: "wf_table ex_table"
  by (simp add: wf_table_def ex_table_def columns_def)

lemma load_ex_table: "load ex_parse ex_table = Inr ex_loaded"
  by code_simp

lemma load_loaded: "load parse df = Inr df' \<Longrightarrow> df' = loaded parse df \<and> tcol \<in> set (columns df)"
  using load_eq [of df parse] by (cases "tcol \<in> set (columns df)") (simp_all add: load_def)

lemma main_success:
  assumes "wf_table df" "main fmul parse df = Inr sc"
  shows "sc = make_scene (built_figure fmul (loaded parse df)) (built_indices (loaded parse df))"
    and "load parse df = Inr (loaded parse df)"
proof -
  have d: "distinct (columns df)" using assms(1) by (simp add: wf_table_def)
  show "sc = make_scene (built_figure fmul (loaded parse df)) (built_indices (loaded parse df))"
    using assms(2) unfolding main_eq [OF d] by (simp split: if_splits)
  have "tcol \<in> set (columns df)"
    using assms(2) unfolding main_eq [OF d] by (simp split: if_splits)
  then show "load parse df = Inr (loaded parse df)" by (rule load_eq)
qed

lemma scene_of_load:
  assumes "wf_table df" "load parse df = Inr df'" "main fmul parse df = Inr sc"
  shows "sc = make_scene (built_figure fmul df') (built_indices df')"
  using main_success [OF assms(1,3)] assms(2) by simp

lemma fig_data_built [simp]: "fig_data (built_figure fmul df) = built_traces fmul df"
  by (simp add: built_figure_def)

lemma main_ex_table: "main double_mul ex_parse ex_table = Inr ex_scene"
  by code_simp

lemma roles_ex_loaded:
  "eeg_cols ex_loaded = [''Fz'']" "ecg_raw_cols ex_loaded = [''X1:LEOG'']" "cm_cols ex_loaded = [''CM'']"
  by code_simp+

lemma eeg_not_dropped: "c \<in> set EEG_CHANNELS \<Longrightarrow> c \<noteq> tcol \<and> \<not> ignored c"
  by (auto simp: EEG_CHANNELS_def tcol_def ignored_def IGNORE_EXACT_def IGNORE_PREFIXES_def
      startswith_def)

lemma ecg_not_dropped: "map_of ECG_CHANNELS c \<noteq> None \<Longrightarrow> c \<noteq> tcol \<and> \<not> ignored c"
  by (auto simp: ECG_CHANNELS_def tcol_def ignored_def IGNORE_EXACT_def IGNORE_PREFIXES_def
      startswith_def split: if_splits)

lemma cm_not_dropped: "''CM'' \<noteq> tcol \<and> \<not> ignored ''CM''"
  by (simp add: tcol_def ignored_def IGNORE_EXACT_def IGNORE_PREFIXES_def startswith_def)

lemma filter_absorb: "(\<And>x. P x \<Longrightarrow> Q x) \<Longrightarrow> filter P (filter Q xs) = filter P xs"
  by (induction xs) auto

lemma data_cols_loaded:
  "data_cols (loaded parse df) = filter (\<lambda>c. c \<noteq> tcol \<and> \<not> ignored c) (columns df)"
proof -
  have "filter (\<lambda>c. c \<noteq> tcol) (filter (\<lambda>c. c \<noteq> tcol \<and> \<not> ignored c) (columns df))
          = filter (\<lambda>c. c \<noteq> tcol \<and> \<not> ignored c) (columns df)"
    by (simp only: filter_id_conv) simp
  then show ?thesis by (simp add: data_cols_def columns_loaded kept_names_def)
qed

lemma eeg_cols_loaded:
  "eeg_cols (loaded parse df) = filter (\<lambda>c. c \<in> set EEG_CHANNELS) (columns df)"
  unfolding eeg_cols_def split_roles_def data_cols_loaded fst_conv
  by (rule filter_absorb) (rule eeg_not_dropped)

lemma ecg_raw_cols_loaded:
  "ecg_raw_cols (loaded parse df) = filter (\<lambda>c. map_of ECG_CHANNELS c \<noteq> None) (columns df)"
  unfolding ecg_raw_cols_def split_roles_def data_cols_loaded fst_conv snd_conv
  by (rule filter_absorb) (rule ecg_not_dropped)

lemma cm_cols_loaded:
  "cm_cols (loaded parse df) = filter (\<lambda>c. c = ''CM'') (columns df)"
  unfolding cm_cols_def split_roles_def data_cols_loaded fst_conv snd_conv
  by (rule filter_absorb) (use cm_not_dropped in simp)

lemma build_ex_loaded: "build double_mul ex_loaded = Inr (sc_fig ex_scene, ex_indices)"
  by code_simp

lemma columns_ex_table: "columns ex_table = [''Time'', ''Fz'', ''X1:LEOG'', ''CM'', ''Trigger'']"
  by (simp add: ex_table_def columns_def)

lemma select_option_same_length: "length vec = length cur \<Longrightarrow> select_option vec cur = vec"
  unfolding select_option_def by (rule nth_equalityI) simp_all

lemma column_loaded:
  "c \<in> set (kept_names (columns df) tcol) \<Longrightarrow>
   column (loaded parse df) c =
     map ((!) (if c = tcol then time_axis parse df else column df c)) (row_order parse df)"
  by (simp add: column_def loaded_def map_of_map_restrict)

lemma main_no_text:
  assumes "wf_table df" "main fmul parse df = Inr sc"
  shows "\<forall>r \<in> set (ecg_raw_cols (loaded parse df)). \<not> list_ex is_text (column (loaded parse df) r)"
proof -
  have d: "distinct (columns df)" using assms(1) by (simp add: wf_table_def)
  show ?thesis using assms(2) unfolding main_eq [OF d] by (simp split: if_splits)
qed








lemma wf_lengths:
  "wf_table df \<Longrightarrow> c \<in> set (columns df) \<Longrightarrow> c' \<in> set (columns df) \<Longrightarrow>
   length (column df c) = length (column df c')"
proof -
  assume wf: "wf_table df" and c: "c \<in> set (columns df)" and c': "c' \<in> set (columns df)"
  have m: "(k, column df k) \<in> set df" if "k \<in> set (columns df)" for k
  proof -
    from that have "map_of df k \<noteq> None"
      by (simp add: columns_def map_of_eq_None_iff)
    then obtain s where "map_of df k = Some s" by auto
    then show ?thesis by (auto simp: column_def dest: map_of_SomeD)
  qed
  show ?thesis using wf m [OF c] m [OF c'] unfolding wf_table_def by fastforce
qed

lemma time_axis_num: "i < length (time_axis parse df) \<Longrightarrow>
   is_number (time_axis parse df ! i) \<longleftrightarrow> time_axis parse df ! i \<noteq> NA"
  by (auto simp: time_axis_def to_numeric_def split: cell.splits option.splits)

lemma set_row_order:
  "set (row_order parse df) =
     {i. i < length (time_axis parse df) \<and> is_number (time_axis parse df ! i)}"
  using time_axis_num [of _ parse df] by (auto simp: row_order_def)

lemma distinct_row_order: "distinct (row_order parse df)"
  by (simp add: row_order_def)

lemma sorted_row_order:
  "sorted (map (\<lambda>i. num_val (time_axis parse df ! i)) (row_order parse df))"
  unfolding row_order_def by (rule sorted_sort_key)

lemma trace_cases:
  "tr \<in> set (built_traces fmul df) \<Longrightarrow>
     (\<exists>c \<in> set (eeg_cols df). tr = eeg_trace df c) \<or> (\<exists>c \<in> set (cm_cols df). tr = cm_trace df c)
   \<or> (\<exists>c \<in> set (ecg_raw_cols df). tr = mv_trace df c)
   \<or> (\<exists>c \<in> set (ecg_raw_cols df). tr = uv_trace fmul df c)"
  by (auto simp: built_traces_def)

lemma role_not_tcol:
  "c \<in> set (eeg_cols df) \<union> set (cm_cols df) \<union> set (ecg_raw_cols df) \<Longrightarrow> c \<noteq> tcol"
  by (auto simp: eeg_cols_def cm_cols_def ecg_raw_cols_def split_roles_def data_cols_def)

lemma spec_role_eeg: "spec_role c = Role_EEG \<longleftrightarrow> c \<in> set EEG_CHANNELS"
  using eeg_not_dropped [of c] by (auto simp: spec_role_def ignored_def list_ex_iff)

lemma spec_role_ecg: "spec_role c = Role_ECG_raw \<longleftrightarrow> map_of ECG_CHANNELS c \<noteq> None"
proof -
  have k: "c \<in> fst ` set ECG_CHANNELS \<longleftrightarrow> map_of ECG_CHANNELS c \<noteq> None"
    by (simp add: map_of_eq_None_iff)
  have "\<not> (c \<in> set EEG_CHANNELS \<and> map_of ECG_CHANNELS c \<noteq> None)"
    by (auto simp: EEG_CHANNELS_def ECG_CHANNELS_def split: if_splits)
  then show ?thesis
    using ecg_not_dropped [of c] unfolding spec_role_def k
    by (auto simp: ignored_def list_ex_iff)
qed

lemma spec_role_cm: "spec_role c = Role_Reference \<longleftrightarrow> c = ''CM''"
proof -
  have "''CM'' \<notin> set EEG_CHANNELS" "''CM'' \<notin> fst ` set ECG_CHANNELS"
    by (simp_all add: EEG_CHANNELS_def ECG_CHANNELS_def)
  then show ?thesis
    using cm_not_dropped by (auto simp: spec_role_def ignored_def list_ex_iff)
qed

lemma spec_role_ignored: "spec_role c = Role_Ignored \<longleftrightarrow> ignored c"
  by (auto simp: spec_role_def ignored_def list_ex_iff)

lemma spec_role_tcol: "spec_role tcol = Role_None"
  by (simp add: spec_role_def tcol_def IGNORE_EXACT_def IGNORE_PREFIXES_def startswith_def
      EEG_CHANNELS_def ECG_CHANNELS_def)

lemma column_remove: "c' \<noteq> c \<Longrightarrow> column (filter (\<lambda>p. fst p \<noteq> c) df) c' = column df c'"
  by (induction df) (auto simp: column_def)

lemma columns_remove: "columns (filter (\<lambda>p. fst p \<noteq> c) df) = filter (\<lambda>k. k \<noteq> c) (columns df)"
  by (induction df) (auto simp: columns_def)

lemma filter_remove: "\<not> P c \<Longrightarrow> filter P (filter (\<lambda>k. k \<noteq> c) xs) = filter P xs"
  by (induction xs) auto

lemma built_traces_cong:
  assumes "eeg_cols A = eeg_cols B" "cm_cols A = cm_cols B" "ecg_raw_cols A = ecg_raw_cols B"
    and "column A tcol = column B tcol"
    and "\<And>c. c \<in> set (eeg_cols B) \<union> set (cm_cols B) \<union> set (ecg_raw_cols B) \<Longrightarrow>
           column A c = column B c"
  shows "built_traces fmul A = built_traces fmul B"
  unfolding built_traces_def assms(1-3)
  using assms(4,5)
  by (auto simp: eeg_trace_def cm_trace_def mv_trace_def uv_trace_def)

lemma main_remove_unused:
  assumes wf: "wf_table df" and c: "c \<noteq> tcol"
    and r: "spec_role c = Role_None \<or> spec_role c = Role_Ignored"
  shows "main fmul parse (filter (\<lambda>p. fst p \<noteq> c) df) = main fmul parse df"
proof -
  let ?df2 = "filter (\<lambda>p. fst p \<noteq> c) df"
  let ?A = "loaded parse ?df2" and ?B = "loaded parse df"
  have d: "distinct (columns df)" using wf by (simp add: wf_table_def)
  have d2: "distinct (columns ?df2)" using d by (simp add: columns_remove)
  have t: "tcol \<in> set (columns ?df2) \<longleftrightarrow> tcol \<in> set (columns df)"
    using c by (auto simp: columns_remove)
  have ne: "c \<notin> set EEG_CHANNELS" "map_of ECG_CHANNELS c = None" "c \<noteq> ''CM''"
    using r spec_role_eeg [of c] spec_role_ecg [of c] spec_role_cm [of c] by auto
  have e: "eeg_cols ?A = eeg_cols ?B"
    unfolding eeg_cols_loaded columns_remove by (rule filter_remove) (rule ne)
  have g: "ecg_raw_cols ?A = ecg_raw_cols ?B"
    unfolding ecg_raw_cols_loaded columns_remove by (rule filter_remove) (simp add: ne)
  have m: "cm_cols ?A = cm_cols ?B"
    unfolding cm_cols_loaded columns_remove by (rule filter_remove) (rule ne)
  have ta: "time_axis parse ?df2 = time_axis parse df"
    using c by (simp add: time_axis_def column_remove)
  have ro: "row_order parse ?df2 = row_order parse df"
    by (simp add: row_order_def ta)
  have ct: "column ?A tcol = column ?B tcol"
    by (simp add: column_loaded kept_names_def ta ro)
  have cc: "column ?A k = column ?B k"
    if "k \<in> set (eeg_cols ?B) \<union> set (cm_cols ?B) \<union> set (ecg_raw_cols ?B)" for k
  proof -
    have kc: "k \<noteq> c" using that ne
      by (auto simp: eeg_cols_loaded cm_cols_loaded ecg_raw_cols_loaded)
    have kt: "k \<noteq> tcol" using that by (rule role_not_tcol)
    have kB: "k \<in> set (kept_names (columns df) tcol)"
      using that roles_subset [of ?B] by (auto simp: columns_loaded)
    then have kA: "k \<in> set (kept_names (columns ?df2) tcol)"
      using kc by (auto simp: kept_names_def columns_remove)
    show ?thesis using kA kB kt kc by (simp add: column_loaded ro column_remove)
  qed
  have bt: "built_traces fmul ?A = built_traces fmul ?B"
    using e m g ct cc by (rule built_traces_cong)
  have bf: "built_figure fmul ?A = built_figure fmul ?B" by (simp add: built_figure_def bt g m)
  have bi: "built_indices ?A = built_indices ?B" by (simp add: built_indices_def e g m)
  have tx: "(\<exists>r \<in> set (ecg_raw_cols ?B). list_ex is_text (column ?A r))
        \<longleftrightarrow> (\<exists>r \<in> set (ecg_raw_cols ?B). list_ex is_text (column ?B r))"
    using cc by auto
  show ?thesis
    unfolding main_eq [OF d] main_eq [OF d2] t e g m bf bi tx by (rule refl)
qed

lemma load_ex_other: "load (\<lambda>t. None) ex_other = Inr ex_other_loaded"
  by code_simp

lemma columns_ex_other: "columns ex_other = columns ex_table"
  by (simp add: ex_other_def ex_table_def columns_def)

lemma table_sizes:
  "length EEG_CHANNELS = 21" "distinct EEG_CHANNELS" "length ECG_CHANNELS = 2"
  "distinct (map fst ECG_CHANNELS)"
  by (simp_all add: EEG_CHANNELS_def ECG_CHANNELS_def)

lemma roles_of_load:
  assumes "load parse df = Inr df'"
  shows "columns df' = tcol # filter (\<lambda>c. c \<noteq> tcol \<and> spec_role c \<noteq> Role_Ignored) (columns df)"
    and "eeg_cols df' = filter (\<lambda>c. c \<noteq> tcol \<and> spec_role c = Role_EEG) (columns df)"
    and "ecg_raw_cols df' = filter (\<lambda>c. c \<noteq> tcol \<and> spec_role c = Role_ECG_raw) (columns df)"
    and "cm_cols df' = filter (\<lambda>c. c \<noteq> tcol \<and> spec_role c = Role_Reference) (columns df)"
proof -
  have l: "df' = loaded parse df" using load_loaded [OF assms] by simp
  show "columns df' = tcol # filter (\<lambda>c. c \<noteq> tcol \<and> spec_role c \<noteq> Role_Ignored) (columns df)"
    by (simp add: l columns_loaded kept_names_def spec_role_ignored)
  show "eeg_cols df' = filter (\<lambda>c. c \<noteq> tcol \<and> spec_role c = Role_EEG) (columns df)"
    unfolding l eeg_cols_loaded spec_role_eeg
    by (rule filter_cong) (auto dest: eeg_not_dropped)
  show "ecg_raw_cols df' = filter (\<lambda>c. c \<noteq> tcol \<and> spec_role c = Role_ECG_raw) (columns df)"
    unfolding l ecg_raw_cols_loaded spec_role_ecg
    by (rule filter_cong) (use ecg_not_dropped in blast)+
  show "cm_cols df' = filter (\<lambda>c. c \<noteq> tcol \<and> spec_role c = Role_Reference) (columns df)"
    unfolding l cm_cols_loaded spec_role_cm
    by (rule filter_cong) (use cm_not_dropped in auto)
qed


lemma load_ex_bad: "load ex_parse ex_bad = Inr ex_bad_loaded"
  by code_simp

lemma main_ex_bad: "main double_mul ex_parse ex_bad = Inl TypeError"
  by code_simp

lemma wf_ex_bad: "wf_table ex_bad"
  by (simp add: wf_table_def ex_bad_def columns_def)

lemma roles_empty_iff:
  "eeg_cols (loaded parse df) = [] \<and> ecg_raw_cols (loaded parse df) = []
     \<and> cm_cols (loaded parse df) = []
   \<longleftrightarrow> \<not> (\<exists>c \<in> set (columns df). c \<in> set EEG_CHANNELS \<or> map_of ECG_CHANNELS c \<noteq> None \<or> c = ''CM'')"
  unfolding eeg_cols_loaded ecg_raw_cols_loaded cm_cols_loaded filter_empty_conv by blast

lemma built_traces_nonempty:
  "\<not> (eeg_cols df = [] \<and> ecg_raw_cols df = [] \<and> cm_cols df = []) \<Longrightarrow> built_traces fmul df \<noteq> []"
  by (auto simp: built_traces_def)

lemma text_cond:
  assumes "tcol \<in> set (columns df)"
  shows "(\<exists>df' raw s. load parse df = Inr df' \<and> raw \<in> set (ecg_raw_cols df')
            \<and> getitem df' raw = Inr s \<and> list_ex is_text s)
     \<longleftrightarrow> (\<exists>r \<in> set (ecg_raw_cols (loaded parse df)). list_ex is_text (column (loaded parse df) r))"
proof -
  have g: "getitem (loaded parse df) r = Inr (column (loaded parse df) r)"
    if "r \<in> set (ecg_raw_cols (loaded parse df))" for r
    using that roles_subset(2) [of "loaded parse df"] by (intro getitem_column) blast
  show ?thesis unfolding load_eq [OF assms] using g by auto
qed

section \<open>Claims\<close>

lemma loaded_no_text:
  assumes "wf_table df" and "tcol \<in> set (columns df)"
    and "r \<in> set (ecg_raw_cols (loaded parse df))" and "\<not> list_ex is_text (column df r)"
  shows "\<not> list_ex is_text (column (loaded parse df) r)"
proof -
  have rk: "r \<in> set (kept_names (columns df) tcol)"
    using assms(3) roles_subset(2) [of "loaded parse df"] by (auto simp: columns_loaded)
  have rt: "r \<noteq> tcol" using assms(3) role_not_tcol [of r "loaded parse df"] by simp
  have rc: "r \<in> set (columns df)" using rk rt by (auto simp: kept_names_def)
  have len: "length (column df r) = length (column df tcol)"
    using assms(1) rc assms(2) by (rule wf_lengths)
  have col: "column (loaded parse df) r = map ((!) (column df r)) (row_order parse df)"
    using rk rt by (simp add: column_loaded)
  have "column df r ! i \<in> set (column df r)" if "i \<in> set (row_order parse df)" for i
  proof -
    have "i < length (time_axis parse df)" using that by (simp add: set_row_order)
    then have "i < length (column df r)" by (simp add: time_axis_def len)
    then show ?thesis by simp
  qed
  then show ?thesis using assms(4) by (auto simp: col list_ex_iff)
qed

text \<open>
  C6.  On a successful run the chart has \<open>|EEG| + |Reference| + 2 * |ECG-raw|\<close> traces,
  and the three presets of the first menu are vectors of that length: "All" is true
  everywhere, "EEG only" is true on the first \<open>|EEG|\<close> positions (the EEG traces) and false
  elsewhere, "ECG+CM only" is true on the Reference and ECG-mV positions and false on
  the EEG and the ECG-uV positions.
\<close>

theorem preset_vectors:
  assumes "wf_table df" and "load parse df = Inr df'" and "main fmul parse df = Inr sc"
  shows "length (fig_data (sc_fig sc))
           = length (eeg_cols df') + length (cm_cols df') + 2 * length (ecg_raw_cols df')
       \<and> sc_presets sc =
          [(''All'',
            replicate (length (eeg_cols df') + length (cm_cols df') + 2 * length (ecg_raw_cols df')) True),
           (''EEG only'',
            replicate (length (eeg_cols df')) True
            @ replicate (length (cm_cols df') + 2 * length (ecg_raw_cols df')) False),
           (''ECG+CM only'',
            replicate (length (eeg_cols df')) False
            @ replicate (length (cm_cols df') + length (ecg_raw_cols df')) True
            @ replicate (length (ecg_raw_cols df')) False)]"
  unfolding scene_of_load [OF assms]
  by (simp add: make_scene_def visibility_all_built vis_eeg_only_built vis_other_only_built
      fig_data_built length_built_traces)

theorem preset_vectors_witness:
  "wf_table ex_table \<and> load ex_parse ex_table = Inr ex_loaded
   \<and> main double_mul ex_parse ex_table = Inr ex_scene
   \<and> length (fig_data (sc_fig ex_scene)) = 4
   \<and> sc_presets ex_scene =
        [(''All'', [True, True, True, True]), (''EEG only'', [True, False, False, False]),
         (''ECG+CM only'', [False, True, True, False])]"
  using preset_vectors [OF wf_ex_table load_ex_table main_ex_table]
    wf_ex_table load_ex_table main_ex_table
  by (simp add: roles_ex_loaded)

text \<open>
  C7.  In the chart of a successful run every EEG, Reference and ECG-mV trace is
  initially visible: the program leaves their visibility unset, which the plotting
  library draws as visible and \<open>unit_mode_visibility\<close> reads as true.  Every ECG-uV
  trace is initially hidden.  So mV is the ECG unit shown at the start.
\<close>

theorem initial_visibility:
  assumes "wf_table df" and "load parse df = Inr df'" and "main fmul parse df = Inr sc"
  shows "map (\<lambda>tr. (tr_name tr, tr_visible tr)) (fig_data (sc_fig sc)) =
           map (\<lambda>c. (c, None)) (eeg_cols df')
           @ map (\<lambda>c. (CM_label, None)) (cm_cols df')
           @ map (\<lambda>r. (nice_name r @ mV_suffix, None)) (ecg_raw_cols df')
           @ map (\<lambda>r. (nice_name r @ uV_suffix, Some False)) (ecg_raw_cols df')"
  unfolding scene_of_load [OF assms]
  by (simp add: make_scene_def built_traces_def eeg_trace_def cm_trace_def mv_trace_def
      uv_trace_def Scatter_def comp_def)

theorem initial_visibility_witness:
  "wf_table ex_table \<and> load ex_parse ex_table = Inr ex_loaded
   \<and> main double_mul ex_parse ex_table = Inr ex_scene
   \<and> map (\<lambda>tr. (tr_name tr, tr_visible tr)) (fig_data (sc_fig ex_scene)) =
       [(''Fz'', None), (CM_label, None), (''ECG_Left (mV)'', None),
        (''ECG_Left'' @ uV_suffix, Some False)]"
  using initial_visibility [OF wf_ex_table load_ex_table main_ex_table]
    wf_ex_table load_ex_table main_ex_table
  by (simp add: roles_ex_loaded nice_name_def ECG_CHANNELS_def mV_suffix_def)

text \<open>
  C8.  The figure has a secondary (right) axis exactly when the number of ECG-derived
  series plus the number of Reference series is positive.  Every EEG trace is put on
  the primary axis, every Reference and every ECG trace on the secondary axis.
\<close>

theorem axis_assignment:
  assumes "wf_table df" and "load parse df = Inr df'" and "main fmul parse df = Inr sc"
  shows "(fig_secondary_y (sc_fig sc) \<longleftrightarrow> 2 * length (ecg_raw_cols df') + length (cm_cols df') > 0)
       \<and> map (\<lambda>tr. (tr_name tr, tr_secondary_y tr)) (fig_data (sc_fig sc)) =
           map (\<lambda>c. (c, False)) (eeg_cols df')
           @ map (\<lambda>c. (CM_label, True)) (cm_cols df')
           @ map (\<lambda>r. (nice_name r @ mV_suffix, True)) (ecg_raw_cols df')
           @ map (\<lambda>r. (nice_name r @ uV_suffix, True)) (ecg_raw_cols df')"
  unfolding scene_of_load [OF assms]
  by (auto simp: make_scene_def built_figure_def built_traces_def eeg_trace_def cm_trace_def
      mv_trace_def uv_trace_def Scatter_def comp_def)

theorem axis_assignment_witness:
  "wf_table ex_table \<and> load ex_parse ex_table = Inr ex_loaded
   \<and> main double_mul ex_parse ex_table = Inr ex_scene
   \<and> fig_secondary_y (sc_fig ex_scene)
   \<and> map (\<lambda>tr. (tr_name tr, tr_secondary_y tr)) (fig_data (sc_fig ex_scene)) =
       [(''Fz'', False), (CM_label, True), (''ECG_Left (mV)'', True),
        (''ECG_Left'' @ uV_suffix, True)]"
  using axis_assignment [OF wf_ex_table load_ex_table main_ex_table]
    wf_ex_table load_ex_table main_ex_table
  by (simp add: roles_ex_loaded nice_name_def ECG_CHANNELS_def mV_suffix_def)

text \<open>
  C10.  The trace list is four consecutive blocks: the EEG traces, the Reference
  traces, the ECG-mV traces, the ECG-uV traces.  Inside a block the traces follow the
  column order of the input table.  The index lists from which the preset and the
  unit vectors are filled are the position ranges of these blocks.
\<close>

theorem trace_order:
  assumes "wf_table df" and "load parse df = Inr df'" and "build fmul df' = Inr (fig, ti)"
  shows "map tr_name (fig_data fig) =
           eeg_cols df' @ map (\<lambda>c. CM_label) (cm_cols df')
           @ map (\<lambda>r. nice_name r @ mV_suffix) (ecg_raw_cols df')
           @ map (\<lambda>r. nice_name r @ uV_suffix) (ecg_raw_cols df')
       \<and> eeg_cols df' = filter (\<lambda>c. c \<in> set EEG_CHANNELS) (columns df)
       \<and> cm_cols df' = filter (\<lambda>c. c = ''CM'') (columns df)
       \<and> ecg_raw_cols df' = filter (\<lambda>c. map_of ECG_CHANNELS c \<noteq> None) (columns df)
       \<and> ti_EEG ti = [0..<length (eeg_cols df')]
       \<and> ti_CM ti = [length (eeg_cols df')..<length (eeg_cols df') + length (cm_cols df')]
       \<and> ti_ECG_mV ti = [length (eeg_cols df') + length (cm_cols df')..<
                          length (eeg_cols df') + length (cm_cols df') + length (ecg_raw_cols df')]
       \<and> ti_ECG_uV ti = [length (eeg_cols df') + length (cm_cols df') + length (ecg_raw_cols df')..<
                          length (eeg_cols df') + length (cm_cols df') + 2 * length (ecg_raw_cols df')]"
proof -
  have l: "df' = loaded parse df" using load_loaded [OF assms(2)] by simp
  have d: "distinct (columns df)" using assms(1) by (simp add: wf_table_def)
  have b: "fig = built_figure fmul df' \<and> ti = built_indices df'"
    using assms(3) build_eq [of df'] tcol_loaded [of parse df] distinct_loaded [OF d, of parse]
    unfolding l by (simp split: if_splits)
  show ?thesis
    unfolding b [THEN conjunct1] b [THEN conjunct2]
    by (simp add: built_traces_def built_indices_def Let_def eeg_trace_def cm_trace_def
        mv_trace_def uv_trace_def Scatter_def comp_def l eeg_cols_loaded cm_cols_loaded
        ecg_raw_cols_loaded mult_2 add.assoc)
qed

theorem trace_order_witness:
  "wf_table ex_table \<and> load ex_parse ex_table = Inr ex_loaded
   \<and> build double_mul ex_loaded = Inr (sc_fig ex_scene, ex_indices)
   \<and> map tr_name (fig_data (sc_fig ex_scene)) =
        [''Fz'', CM_label, ''ECG_Left (mV)'', ''ECG_Left'' @ uV_suffix]
   \<and> eeg_cols ex_loaded = filter (\<lambda>c. c \<in> set EEG_CHANNELS) (columns ex_table)
   \<and> ti_EEG ex_indices = [0] \<and> ti_CM ex_indices = [1]
   \<and> ti_ECG_mV ex_indices = [2] \<and> ti_ECG_uV ex_indices = [3]"
  using trace_order [OF wf_ex_table load_ex_table build_ex_loaded]
    wf_ex_table load_ex_table build_ex_loaded
  by (simp add: roles_ex_loaded nice_name_def ECG_CHANNELS_def mV_suffix_def)

text \<open>
  C9 (as amended).  Every Reference trace carries the one fixed label, whatever its
  column, and is drawn with the dotted line pattern (\<open>dot\<close>).  Every EEG trace keeps
  its column name, every ECG trace has the remapped name followed by the unit suffix,
  and no trace but the Reference traces sets a line pattern, so they are drawn solid.
\<close>

theorem trace_names_and_styles:
  assumes "wf_table df" and "load parse df = Inr df'" and "main fmul parse df = Inr sc"
  shows "map (\<lambda>tr. (tr_name tr, tr_dash tr)) (fig_data (sc_fig sc)) =
           map (\<lambda>c. (c, None)) (eeg_cols df')
           @ map (\<lambda>c. (CM_label, Some ''dot'')) (cm_cols df')
           @ map (\<lambda>r. (nice_name r @ mV_suffix, None)) (ecg_raw_cols df')
           @ map (\<lambda>r. (nice_name r @ uV_suffix, None)) (ecg_raw_cols df')"
  unfolding scene_of_load [OF assms]
  by (simp add: make_scene_def built_traces_def eeg_trace_def cm_trace_def mv_trace_def
      uv_trace_def Scatter_def comp_def)

theorem trace_names_and_styles_witness:
  "wf_table ex_table \<and> load ex_parse ex_table = Inr ex_loaded
   \<and> main double_mul ex_parse ex_table = Inr ex_scene
   \<and> map (\<lambda>tr. (tr_name tr, tr_dash tr)) (fig_data (sc_fig ex_scene)) =
       [(''Fz'', None), (CM_label, Some ''dot''), (''ECG_Left (mV)'', None),
        (''ECG_Left'' @ uV_suffix, None)]"
  using trace_names_and_styles [OF wf_ex_table load_ex_table main_ex_table]
    wf_ex_table load_ex_table main_ex_table
  by (simp add: roles_ex_loaded nice_name_def ECG_CHANNELS_def mV_suffix_def)

text \<open>
  C9 as stated asks for a dashed line.  The Reference trace of the sample table has the
  pattern \<open>dot\<close>, which is not the pattern \<open>dash\<close>.
\<close>

theorem reference_dashed_counterexample:
  "main double_mul ex_parse ex_table = Inr ex_scene
   \<and> cm_cols ex_loaded = [''CM'']
   \<and> tr_name (fig_data (sc_fig ex_scene) ! 1) = CM_label
   \<and> tr_dash (fig_data (sc_fig ex_scene) ! 1) = Some ''dot''
   \<and> tr_dash (fig_data (sc_fig ex_scene) ! 1) \<noteq> Some ''dash''"
  using main_ex_table roles_ex_loaded(3) by (simp add: ex_scene_def)

text \<open>
  C2 (as amended).  Each option of the unit menu carries a full visibility vector that
  is computed once, when the chart is built.  At the EEG and Reference positions it
  holds the visibility those traces have at build time, which is visible; at the ECG
  positions it shows the chosen unit and hides the other.  Selecting the option
  replaces the whole visibility vector of the chart by this vector, so the EEG and
  Reference traces come out visible whatever they were when the option was selected.
\<close>

theorem unit_toggle_vectors:
  assumes "wf_table df" and "load parse df = Inr df'" and "main fmul parse df = Inr sc"
    and "length cur = length (fig_data (sc_fig sc))"
  shows "map (\<lambda>opt. fst (snd opt)) (sc_units sc) =
           [replicate (length (eeg_cols df') + length (cm_cols df') + length (ecg_raw_cols df')) True
            @ replicate (length (ecg_raw_cols df')) False,
            replicate (length (eeg_cols df') + length (cm_cols df')) True
            @ replicate (length (ecg_raw_cols df')) False
            @ replicate (length (ecg_raw_cols df')) True]
       \<and> (\<forall>opt \<in> set (sc_units sc). select_option (fst (snd opt)) cur = fst (snd opt))
       \<and> (\<forall>opt \<in> set (sc_units sc). \<forall>i < length (eeg_cols df') + length (cm_cols df').
             tr_visible (fig_data (sc_fig sc) ! i) = None
             \<and> select_option (fst (snd opt)) cur ! i = True)"
proof -
  let ?e = "length (eeg_cols df')" and ?c = "length (cm_cols df')" and ?m = "length (ecg_raw_cols df')"
  let ?mv = "replicate (?e + ?c + ?m) True @ replicate ?m False"
  let ?uv = "replicate (?e + ?c) True @ replicate ?m False @ replicate ?m True"
  have sc: "sc = make_scene (built_figure fmul df') (built_indices df')"
    by (rule scene_of_load [OF assms(1-3)])
  have n: "length cur = ?e + ?c + 2 * ?m"
    using assms(4) by (simp add: sc make_scene_def length_built_traces)
  have units: "map (\<lambda>opt. fst (snd opt)) (sc_units sc) = [?mv, ?uv]"
    by (simp add: sc make_scene_def unit_mV_built unit_uV_built)
  have vecs: "fst (snd opt) = ?mv \<or> fst (snd opt) = ?uv" if "opt \<in> set (sc_units sc)" for opt
  proof -
    have "fst (snd opt) \<in> set (map (\<lambda>opt. fst (snd opt)) (sc_units sc))" using that by simp
    then show ?thesis unfolding units by simp
  qed
  have sel: "select_option (fst (snd opt)) cur = fst (snd opt)" if "opt \<in> set (sc_units sc)" for opt
    using vecs [OF that] n by (intro select_option_same_length) auto
  have vis: "tr_visible (fig_data (sc_fig sc) ! i) = None" if "i < ?e + ?c" for i
    using that
    by (auto simp: sc make_scene_def built_traces_def nth_append eeg_trace_def cm_trace_def
        Scatter_def)
  have tr: "fst (snd opt) ! i = True" if "opt \<in> set (sc_units sc)" "i < ?e + ?c" for opt i
    using vecs [OF that(1)] that(2) by (auto simp: nth_append)
  show ?thesis using units sel vis tr by simp
qed

theorem unit_toggle_vectors_witness:
  "wf_table ex_table \<and> load ex_parse ex_table = Inr ex_loaded
   \<and> main double_mul ex_parse ex_table = Inr ex_scene
   \<and> length [False, True, True, False] = length (fig_data (sc_fig ex_scene))
   \<and> map (\<lambda>opt. fst (snd opt)) (sc_units ex_scene)
        = [[True, True, True, False], [True, True, False, True]]
   \<and> select_option (fst (snd (sc_units ex_scene ! 0))) [False, True, True, False]
        = fst (snd (sc_units ex_scene ! 0))
   \<and> tr_visible (fig_data (sc_fig ex_scene) ! 0) = None
   \<and> select_option (fst (snd (sc_units ex_scene ! 0))) [False, True, True, False] ! 0 = True"
proof -
  have len: "length [False, True, True, False] = length (fig_data (sc_fig ex_scene))"
    by (simp add: ex_scene_def)
  have mem: "sc_units ex_scene ! 0 \<in> set (sc_units ex_scene)"
    by (simp add: ex_scene_def)
  note t = unit_toggle_vectors [OF wf_ex_table load_ex_table main_ex_table len]
  have a: "map (\<lambda>opt. fst (snd opt)) (sc_units ex_scene)
             = [[True, True, True, False], [True, True, False, True]]"
    using t [THEN conjunct1] by (simp add: roles_ex_loaded)
  have b: "select_option (fst (snd (sc_units ex_scene ! 0))) [False, True, True, False]
             = fst (snd (sc_units ex_scene ! 0))"
    using t [THEN conjunct2, THEN conjunct1] mem by blast
  have c: "tr_visible (fig_data (sc_fig ex_scene) ! 0) = None
           \<and> select_option (fst (snd (sc_units ex_scene ! 0))) [False, True, True, False] ! 0 = True"
    using t [THEN conjunct2, THEN conjunct2] mem by (simp add: roles_ex_loaded)
  show ?thesis using wf_ex_table load_ex_table main_ex_table len a b c by blast
qed

text \<open>
  C2 as stated fails on the sample table: after the preset "ECG+CM only" the EEG trace
  Fz is hidden, and selecting "ECG in mV" makes it visible again.
\<close>

theorem unit_toggle_counterexample:
  "main double_mul ex_parse ex_table = Inr ex_scene
   \<and> tr_name (fig_data (sc_fig ex_scene) ! 0) = ''Fz''
   \<and> sc_presets ex_scene ! 2 = (''ECG+CM only'', [False, True, True, False])
   \<and> sc_units ex_scene ! 0 = (''ECG in mV'', [True, True, True, False], mV_axis_title)
   \<and> [False, True, True, False] ! 0 = False
   \<and> select_option [True, True, True, False] [False, True, True, False] ! 0 = True"
  using main_ex_table by (simp add: ex_scene_def select_option_def)




text \<open>
  C4.  In the chart of a successful run all traces take the same rows in the same
  order: exactly the rows of the input whose time cell is a number after coercion,
  each once, in ascending order of time.  A row whose time is not numeric or is missing
  is in no trace, and the time sequence of every trace is non-decreasing whatever the
  order of the input rows.
\<close>

theorem rows_dropped_and_sorted:
  assumes "wf_table df" and "main fmul parse df = Inr sc"
  shows "\<exists>s ord.
           getitem df tcol = Inr s \<and> distinct ord
         \<and> set ord = {i. i < length s \<and> is_number (to_numeric parse s ! i)}
         \<and> (\<forall>tr \<in> set (fig_data (sc_fig sc)).
               tr_x tr = map ((!) (to_numeric parse s)) ord
             \<and> list_all is_number (tr_x tr) \<and> sorted (map num_val (tr_x tr))
             \<and> (\<exists>c col. c \<noteq> tcol \<and> getitem df c = Inr col \<and> length col = length s
                  \<and> (tr_y tr = map ((!) col) ord
                      \<or> mul_series fmul (map ((!) col) ord) 1000 = Inr (tr_y tr))))"
proof -
  let ?df' = "loaded parse df"
  let ?s = "column df tcol"
  let ?t = "to_numeric parse ?s" and ?ord = "row_order parse df"
  let ?Q = "\<lambda>tr. tr_x tr = map ((!) ?t) ?ord \<and> list_all is_number (tr_x tr)
      \<and> sorted (map num_val (tr_x tr))
      \<and> (\<exists>c col. c \<noteq> tcol \<and> getitem df c = Inr col \<and> length col = length ?s
            \<and> (tr_y tr = map ((!) col) ?ord \<or> mul_series fmul (map ((!) col) ?ord) 1000 = Inr (tr_y tr)))"
  have te: "time_axis parse df = ?t" by (simp add: time_axis_def)
  have sc: "sc = make_scene (built_figure fmul ?df') (built_indices ?df')"
    and ld: "load parse df = Inr ?df'"
    using main_success [OF assms] by simp_all
  have fd: "fig_data (sc_fig sc) = built_traces fmul ?df'" by (simp add: sc make_scene_def)
  have tc: "tcol \<in> set (columns df)" using load_loaded [OF ld] by simp
  have g: "getitem df tcol = Inr ?s" using tc by (rule getitem_column)
  have kept: "c \<in> set (kept_names (columns df) tcol)" and cin: "c \<in> set (columns df)"
    and cne: "c \<noteq> tcol"
    if "c \<in> set (eeg_cols ?df') \<union> set (cm_cols ?df') \<union> set (ecg_raw_cols ?df')" for c
  proof -
    show k: "c \<in> set (kept_names (columns df) tcol)"
      using that roles_subset [of ?df'] by (auto simp: columns_loaded)
    show "c \<noteq> tcol" using that by (rule role_not_tcol)
    then show "c \<in> set (columns df)" using k by (auto simp: kept_names_def)
  qed
  have tx: "column ?df' tcol = map ((!) ?t) ?ord"
    by (simp add: column_loaded kept_names_def te)
  have srt: "sorted (map num_val (map ((!) ?t) ?ord))"
    using sorted_row_order [of parse df] by (simp add: comp_def te)
  have nums: "list_all is_number (map ((!) ?t) ?ord)"
    using set_row_order [of parse df] by (auto simp: list_all_iff te)
  have plain: "\<exists>c col. c \<noteq> tcol \<and> getitem df c = Inr col \<and> length col = length ?s
          \<and> (y = map ((!) col) ?ord \<or> mul_series fmul (map ((!) col) ?ord) 1000 = Inr y)"
    if "c \<in> set (eeg_cols ?df') \<union> set (cm_cols ?df') \<union> set (ecg_raw_cols ?df')"
      and "y = column ?df' c \<or> (y = map (scale_cell fmul 1000) (column ?df' c)
             \<and> \<not> list_ex is_text (column ?df' c))" for c y
  proof -
    have col: "column ?df' c = map ((!) (column df c)) ?ord"
      using kept [OF that(1)] cne [OF that(1)] by (simp add: column_loaded)
    have "getitem df c = Inr (column df c)" using cin [OF that(1)] by (rule getitem_column)
    moreover have "length (column df c) = length ?s"
      using assms(1) cin [OF that(1)] tc by (rule wf_lengths)
    moreover have "y = map ((!) (column df c)) ?ord
         \<or> mul_series fmul (map ((!) (column df c)) ?ord) 1000 = Inr y"
      using that(2) by (auto simp: col mul_series_eq)
    ultimately show ?thesis using cne [OF that(1)] by blast
  qed
  have nt: "\<not> list_ex is_text (column ?df' c)" if "c \<in> set (ecg_raw_cols ?df')" for c
    using main_no_text [OF assms] that by blast
  have each: "?Q tr" if tr: "tr \<in> set (built_traces fmul ?df')" for tr
  proof -
    from trace_cases [OF tr] show ?thesis
    proof (elim disjE bexE)
      fix c assume "c \<in> set (eeg_cols ?df')" "tr = eeg_trace ?df' c"
      then show ?thesis using plain [of c "tr_y tr"] srt nums by (simp add: eeg_trace_def Scatter_def tx)
    next
      fix c assume "c \<in> set (cm_cols ?df')" "tr = cm_trace ?df' c"
      then show ?thesis using plain [of c "tr_y tr"] srt nums by (simp add: cm_trace_def Scatter_def tx)
    next
      fix c assume "c \<in> set (ecg_raw_cols ?df')" "tr = mv_trace ?df' c"
      then show ?thesis using plain [of c "tr_y tr"] srt nums by (simp add: mv_trace_def Scatter_def tx)
    next
      fix c assume "c \<in> set (ecg_raw_cols ?df')" "tr = uv_trace fmul ?df' c"
      then show ?thesis using plain [of c "tr_y tr"] srt nums nt [of c]
        by (simp add: uv_trace_def Scatter_def tx)
    qed
  qed
  have st: "set ?ord = {i. i < length ?s \<and> is_number (?t ! i)}"
    using set_row_order [of parse df] by (simp add: te)
  have all: "\<forall>tr \<in> set (fig_data (sc_fig sc)). ?Q tr"
    unfolding fd using each by blast
  have "getitem df tcol = Inr ?s \<and> distinct ?ord
      \<and> set ?ord = {i. i < length ?s \<and> is_number (?t ! i)}
      \<and> (\<forall>tr \<in> set (fig_data (sc_fig sc)). ?Q tr)"
    using g distinct_row_order [of parse df] st all by blast
  then show ?thesis by blast
qed

theorem rows_dropped_and_sorted_witness:
  "wf_table ex_table \<and> main double_mul ex_parse ex_table = Inr ex_scene
   \<and> (\<exists>s ord.
           getitem ex_table tcol = Inr s \<and> distinct ord
         \<and> set ord = {i. i < length s \<and> is_number (to_numeric ex_parse s ! i)}
         \<and> (\<forall>tr \<in> set (fig_data (sc_fig ex_scene)).
               tr_x tr = map ((!) (to_numeric ex_parse s)) ord
             \<and> list_all is_number (tr_x tr) \<and> sorted (map num_val (tr_x tr))
             \<and> (\<exists>c col. c \<noteq> tcol \<and> getitem ex_table c = Inr col \<and> length col = length s
                  \<and> (tr_y tr = map ((!) col) ord
                      \<or> mul_series double_mul (map ((!) col) ord) 1000 = Inr (tr_y tr)))))"
  using rows_dropped_and_sorted [OF wf_ex_table main_ex_table] wf_ex_table main_ex_table
  by (intro conjI)

text \<open>
  C5.  The role of a column depends on its name only.  A column other than the time
  column is dropped first if its name is in the exclusion set or starts with an excluded
  prefix.  Of the others, the EEG columns are those named in the roster of 21 labels,
  the ECG-raw columns those that are keys of the two-entry remapping table, the
  Reference columns those named CM; \<open>spec_role\<close> gives every name one role, so no
  column has two.  Two tables with the same header get the same role lists whatever
  their cells hold, and a column without a role changes nothing: the run on the table
  without it has the same result.
\<close>

theorem column_roles:
  assumes "wf_table df" and "load parse df = Inr df'"
  shows "columns df' = tcol # filter (\<lambda>c. c \<noteq> tcol \<and> spec_role c \<noteq> Role_Ignored) (columns df)
       \<and> eeg_cols df' = filter (\<lambda>c. c \<noteq> tcol \<and> spec_role c = Role_EEG) (columns df)
       \<and> ecg_raw_cols df' = filter (\<lambda>c. c \<noteq> tcol \<and> spec_role c = Role_ECG_raw) (columns df)
       \<and> cm_cols df' = filter (\<lambda>c. c \<noteq> tcol \<and> spec_role c = Role_Reference) (columns df)
       \<and> length EEG_CHANNELS = 21 \<and> distinct EEG_CHANNELS
       \<and> length ECG_CHANNELS = 2 \<and> distinct (map fst ECG_CHANNELS)
       \<and> (\<forall>parse2 df2 df2'. columns df2 = columns df \<and> load parse2 df2 = Inr df2' \<longrightarrow>
             columns df2' = columns df' \<and> eeg_cols df2' = eeg_cols df'
           \<and> ecg_raw_cols df2' = ecg_raw_cols df' \<and> cm_cols df2' = cm_cols df')
       \<and> (\<forall>c. c \<noteq> tcol \<and> (spec_role c = Role_None \<or> spec_role c = Role_Ignored) \<longrightarrow>
             main fmul parse (filter (\<lambda>p. fst p \<noteq> c) df) = main fmul parse df)"
proof -
  note r = roles_of_load [OF assms(2)]
  have same: "columns df2' = columns df' \<and> eeg_cols df2' = eeg_cols df'
           \<and> ecg_raw_cols df2' = ecg_raw_cols df' \<and> cm_cols df2' = cm_cols df'"
    if "columns df2 = columns df" "load parse2 df2 = Inr df2'" for parse2 df2 df2'
    using roles_of_load [OF that(2)] r by (simp add: that(1))
  have inv: "main fmul parse (filter (\<lambda>p. fst p \<noteq> c) df) = main fmul parse df"
    if "c \<noteq> tcol" "spec_role c = Role_None \<or> spec_role c = Role_Ignored" for c
    using assms(1) that by (rule main_remove_unused)
  show ?thesis using r table_sizes same inv by blast
qed

theorem column_roles_witness:
  "wf_table ex_table \<and> load ex_parse ex_table = Inr ex_loaded
   \<and> columns ex_loaded = [''Time'', ''Fz'', ''X1:LEOG'', ''CM'']
   \<and> eeg_cols ex_loaded
        = filter (\<lambda>c. c \<noteq> tcol \<and> spec_role c = Role_EEG) (columns ex_table)
   \<and> ecg_raw_cols ex_loaded
        = filter (\<lambda>c. c \<noteq> tcol \<and> spec_role c = Role_ECG_raw) (columns ex_table)
   \<and> cm_cols ex_loaded
        = filter (\<lambda>c. c \<noteq> tcol \<and> spec_role c = Role_Reference) (columns ex_table)
   \<and> columns ex_other = columns ex_table
   \<and> load (\<lambda>t. None) ex_other = Inr ex_other_loaded
   \<and> columns ex_other_loaded = columns ex_loaded
   \<and> eeg_cols ex_other_loaded = eeg_cols ex_loaded
   \<and> ecg_raw_cols ex_other_loaded = ecg_raw_cols ex_loaded
   \<and> cm_cols ex_other_loaded = cm_cols ex_loaded
   \<and> ''Trigger'' \<noteq> tcol \<and> spec_role ''Trigger'' = Role_Ignored
   \<and> main double_mul ex_parse (filter (\<lambda>p. fst p \<noteq> ''Trigger'') ex_table) = main double_mul ex_parse ex_table"
proof -
  note t = column_roles [OF wf_ex_table load_ex_table]
  have trig: "''Trigger'' \<noteq> tcol" "spec_role ''Trigger'' = Role_Ignored"
    by (simp_all add: tcol_def spec_role_def IGNORE_EXACT_def)
  have cols: "columns ex_loaded = [''Time'', ''Fz'', ''X1:LEOG'', ''CM'']"
    by (simp add: ex_loaded_def columns_def)
  have same: "columns ex_other_loaded = columns ex_loaded
      \<and> eeg_cols ex_other_loaded = eeg_cols ex_loaded
      \<and> ecg_raw_cols ex_other_loaded = ecg_raw_cols ex_loaded
      \<and> cm_cols ex_other_loaded = cm_cols ex_loaded"
    using t columns_ex_other load_ex_other by blast
  have inv: "main double_mul ex_parse (filter (\<lambda>p. fst p \<noteq> ''Trigger'') ex_table) = main double_mul ex_parse ex_table"
    using t trig by blast
  show ?thesis
    using wf_ex_table load_ex_table cols t columns_ex_other load_ex_other same trig inv by blast
qed

text \<open>
  C3 (as amended).  On a table with distinct column names the run ends in one of its
  two validations, before any output is written, exactly in these cases: with the
  message of the first validation when the Time column is absent, with the message of
  the second when the Time column is present and no column has a role after the ignore
  filter.  When the Time column is present, some column is an EEG, ECG-raw or Reference
  column, and no ECG-raw column holds text, the run writes a chart with at least one
  trace.  When an ECG-raw column holds text in a row that is kept, the multiplication
  by 1000 raises TypeError and nothing is written.  No lookup of the run raises
  KeyError.
\<close>

theorem exit_conditions:
  assumes "wf_table df"
  shows "(main fmul parse df = Inl (SystemExit ''Expected 'Time' column not found.'') \<longleftrightarrow>
            tcol \<notin> set (columns df))
       \<and> (main fmul parse df
            = Inl (SystemExit ''No EEG/ECG/CM columns found after filtering. Check headers.'') \<longleftrightarrow>
            (\<exists>df'. load parse df = Inr df' \<and> eeg_cols df' = [] \<and> ecg_raw_cols df' = []
                   \<and> cm_cols df' = []))
       \<and> ((\<exists>msg. main fmul parse df = Inl (SystemExit msg)) \<longleftrightarrow>
            tcol \<notin> set (columns df)
          \<or> (\<exists>df'. load parse df = Inr df' \<and> eeg_cols df' = [] \<and> ecg_raw_cols df' = []
                   \<and> cm_cols df' = []))
       \<and> (tcol \<in> set (columns df)
          \<and> (\<exists>c \<in> set (columns df).
                c \<in> set EEG_CHANNELS \<or> map_of ECG_CHANNELS c \<noteq> None \<or> c = ''CM'')
          \<and> (\<forall>c s. map_of ECG_CHANNELS c \<noteq> None \<and> getitem df c = Inr s \<longrightarrow>
                 \<not> list_ex is_text s)
          \<longrightarrow> (\<exists>sc. main fmul parse df = Inr sc \<and> fig_data (sc_fig sc) \<noteq> []))
       \<and> ((\<exists>df' raw s. load parse df = Inr df' \<and> raw \<in> set (ecg_raw_cols df')
               \<and> getitem df' raw = Inr s \<and> list_ex is_text s)
          \<longrightarrow> main fmul parse df = Inl TypeError)
       \<and> (\<forall>k. main fmul parse df \<noteq> Inl (KeyError k))"
proof (cases "tcol \<in> set (columns df)")
  case False
  have m: "main fmul parse df = Inl (SystemExit ''Expected 'Time' column not found.'')"
    using False by (simp add: main_def load_def)
  have l: "load parse df = Inl (SystemExit ''Expected 'Time' column not found.'')"
    using False by (simp add: load_def)
  show ?thesis using False by (simp add: m l)
next
  case True
  let ?L = "loaded parse df"
  let ?E = "eeg_cols ?L = [] \<and> ecg_raw_cols ?L = [] \<and> cm_cols ?L = []"
  let ?T = "\<exists>r \<in> set (ecg_raw_cols ?L). list_ex is_text (column ?L r)"
  let ?N = "\<forall>c s. map_of ECG_CHANNELS c \<noteq> None \<and> getitem df c = Inr s \<longrightarrow> \<not> list_ex is_text s"
  have d: "distinct (columns df)" using assms by (simp add: wf_table_def)
  have m: "main fmul parse df =
     (if ?E then Inl (SystemExit ''No EEG/ECG/CM columns found after filtering. Check headers.'')
      else if ?T then Inl TypeError
      else Inr (make_scene (built_figure fmul ?L) (built_indices ?L)))"
    unfolding main_eq [OF d] using True by simp
  have ET: "?E \<Longrightarrow> \<not> ?T" by simp
  have ne: "\<not> ?E \<Longrightarrow>
      fig_data (sc_fig (make_scene (built_figure fmul ?L) (built_indices ?L))) \<noteq> []"
    using built_traces_nonempty [of ?L fmul] by (simp add: make_scene_def)
  have p0: "main fmul parse df \<noteq> Inl (SystemExit ''Expected 'Time' column not found.'')"
    unfolding m by simp
  have p1: "main fmul parse df
      = Inl (SystemExit ''No EEG/ECG/CM columns found after filtering. Check headers.'') \<longleftrightarrow> ?E"
    unfolding m by simp
  have p1': "(\<exists>msg. main fmul parse df = Inl (SystemExit msg)) \<longleftrightarrow> ?E"
    unfolding m by simp
  have p2: "?T \<Longrightarrow> main fmul parse df = Inl TypeError"
    unfolding m using ET by auto
  have p3: "(\<exists>sc. main fmul parse df = Inr sc \<and> fig_data (sc_fig sc) \<noteq> [])" if "\<not> ?E" "\<not> ?T"
    unfolding m using ne that by auto
  have p4: "\<forall>k. main fmul parse df \<noteq> Inl (KeyError k)"
    unfolding m by simp
  have l: "(\<exists>df'. load parse df = Inr df' \<and> eeg_cols df' = [] \<and> ecg_raw_cols df' = []
                   \<and> cm_cols df' = []) \<longleftrightarrow> ?E"
    unfolding load_eq [OF True] by auto
  have nt: "\<not> ?T" if n: "?N"
  proof
    assume "?T"
    then obtain r where r: "r \<in> set (ecg_raw_cols ?L)" and t: "list_ex is_text (column ?L r)"
      by blast
    have rk: "map_of ECG_CHANNELS r \<noteq> None" using ecg_raw_keys r by blast
    have rc: "r \<in> set (columns df)"
      using r by (auto simp: ecg_raw_cols_loaded)
    have "\<not> list_ex is_text (column df r)"
      using n rk getitem_column [OF rc] by blast
    then show False using loaded_no_text [OF assms True r] t by blast
  qed
  have s: "\<exists>sc. main fmul parse df = Inr sc \<and> fig_data (sc_fig sc) \<noteq> []"
    if "\<exists>c \<in> set (columns df). c \<in> set EEG_CHANNELS \<or> map_of ECG_CHANNELS c \<noteq> None \<or> c = ''CM''"
      and "?N"
    using p3 nt [OF that(2)] that(1) roles_empty_iff [of parse df] by blast
  show ?thesis
    unfolding text_cond [OF True] l
    using True p0 p1 p1' p2 s p4 by blast
qed

theorem exit_conditions_witness:
  "wf_table ex_table \<and> tcol \<in> set (columns ex_table)
   \<and> ''Fz'' \<in> set (columns ex_table) \<and> ''Fz'' \<in> set EEG_CHANNELS
   \<and> filter (\<lambda>c. map_of ECG_CHANNELS c \<noteq> None) (columns ex_table) = [''X1:LEOG'']
   \<and> getitem ex_table ''X1:LEOG'' = Inr [Num 4, Num 2, NA]
   \<and> \<not> list_ex is_text [Num 4, Num 2, NA]
   \<and> (\<exists>sc. main double_mul ex_parse ex_table = Inr sc \<and> fig_data (sc_fig sc) \<noteq> [])
   \<and> main double_mul ex_parse ex_table \<noteq> Inl (SystemExit ''Expected 'Time' column not found.'')
   \<and> wf_table ex_bad \<and> load ex_parse ex_bad = Inr ex_bad_loaded
   \<and> ''X1:LEOG'' \<in> set (ecg_raw_cols ex_bad_loaded)
   \<and> getitem ex_bad_loaded ''X1:LEOG'' = Inr [Text ''abc'']
   \<and> list_ex is_text [Text ''abc'']
   \<and> main double_mul ex_parse ex_bad = Inl TypeError"
proof -
  note t = exit_conditions [OF wf_ex_table, where fmul = double_mul and parse = ex_parse]
  note b = exit_conditions [OF wf_ex_bad, where fmul = double_mul and parse = ex_parse]
  have tc: "tcol \<in> set (columns ex_table)" "''Fz'' \<in> set (columns ex_table)"
    by (simp_all add: columns_ex_table tcol_def)
  have fz: "''Fz'' \<in> set EEG_CHANNELS" by (simp add: EEG_CHANNELS_def)
  have keys: "filter (\<lambda>c. map_of ECG_CHANNELS c \<noteq> None) (columns ex_table) = [''X1:LEOG'']"
    by (simp add: columns_ex_table ECG_CHANNELS_def)
  have g: "getitem ex_table ''X1:LEOG'' = Inr [Num 4, Num 2, NA]"
    by (simp add: getitem_def ex_table_def)
  have n: "\<not> list_ex is_text [Num 4, Num 2, NA]" by simp
  have only: "c = ''X1:LEOG''" if "c \<in> set (columns ex_table)" "map_of ECG_CHANNELS c \<noteq> None" for c
  proof -
    have "c \<in> set (filter (\<lambda>c. map_of ECG_CHANNELS c \<noteq> None) (columns ex_table))"
      using that by simp
    then show ?thesis unfolding keys by simp
  qed
  have hyp: "\<forall>c s. map_of ECG_CHANNELS c \<noteq> None \<and> getitem ex_table c = Inr s \<longrightarrow>
               \<not> list_ex is_text s"
  proof (intro allI impI)
    fix c s assume a: "map_of ECG_CHANNELS c \<noteq> None \<and> getitem ex_table c = Inr s"
    then have "map_of ex_table c \<noteq> None"
      by (auto simp: getitem_def split: option.splits)
    then have "c \<in> set (columns ex_table)"
      by (simp add: columns_def map_of_eq_None_iff)
    then have "c = ''X1:LEOG''" using a only by blast
    then have "s = [Num 4, Num 2, NA]" using a g by simp
    then show "\<not> list_ex is_text s" by simp
  qed
  have ok: "\<exists>sc. main double_mul ex_parse ex_table = Inr sc \<and> fig_data (sc_fig sc) \<noteq> []"
    using t tc fz hyp by blast
  have no1: "main double_mul ex_parse ex_table
               \<noteq> Inl (SystemExit ''Expected 'Time' column not found.'')"
    using t tc by blast
  have mem: "''X1:LEOG'' \<in> set (ecg_raw_cols ex_bad_loaded)" by code_simp
  have gb: "getitem ex_bad_loaded ''X1:LEOG'' = Inr [Text ''abc'']"
    by (simp add: getitem_def ex_bad_loaded_def)
  have tx: "list_ex is_text [Text ''abc'']" by simp
  have bad: "main double_mul ex_parse ex_bad = Inl TypeError"
    using b load_ex_bad mem gb tx by blast
  show ?thesis
    using wf_ex_table tc fz keys g n ok no1 wf_ex_bad load_ex_bad mem gb tx bad by blast
qed

text \<open>
  C3 as stated fails on a table that has the Time column and an ECG-raw column holding
  text: the run ends in TypeError and writes nothing.
\<close>

theorem exit_success_counterexample:
  "wf_table ex_bad \<and> tcol \<in> set (columns ex_bad) \<and> ''X1:LEOG'' \<in> set (columns ex_bad)
   \<and> map_of ECG_CHANNELS ''X1:LEOG'' = Some ''ECG_Left''
   \<and> load ex_parse ex_bad = Inr ex_bad_loaded
   \<and> ecg_raw_cols ex_bad_loaded = [''X1:LEOG'']
   \<and> main double_mul ex_parse ex_bad = Inl TypeError"
proof -
  have "tcol \<in> set (columns ex_bad)" "''X1:LEOG'' \<in> set (columns ex_bad)"
    by (simp_all add: ex_bad_def columns_def tcol_def)
  moreover have "map_of ECG_CHANNELS ''X1:LEOG'' = Some ''ECG_Left''"
    by (simp add: ECG_CHANNELS_def)
  moreover have "ecg_raw_cols ex_bad_loaded = [''X1:LEOG'']" by code_simp
  ultimately show ?thesis using wf_ex_bad load_ex_bad main_ex_bad by simp
qed


end
